theory Spec2Isabelle
  imports Main "HOL-Library.Word"
begin


section \<open>Strings as the code reads them\<close>

text \<open>
  JavaScript strings are modelled as \<^typ>\<open>string\<close>; a character is one code unit below 256,
  so the model covers Latin-1 text. A value that JavaScript reads as falsy where a string
  is expected (\<open>undefined\<close>, \<open>null\<close> or the empty string) is \<open>None\<close> or \<open>Some []\<close>.
\<close>

definition startsWith :: "string \<Rightarrow> string \<Rightarrow> bool" where
  "startsWith s p = (take (length p) s = p)"

fun includes_str :: "string \<Rightarrow> string \<Rightarrow> bool" where
  "includes_str [] p = (p = [])"
| "includes_str (c # s) p = (if startsWith (c # s) p then True else includes_str s p)"

definition truthy :: "string option \<Rightarrow> bool" where
  "truthy v = (case v of None \<Rightarrow> False | Some s \<Rightarrow> s \<noteq> [])"

text \<open>\<open>a || b\<close> on an optional string \<open>a\<close> and a default \<open>b\<close>.\<close>

definition or_else :: "string option \<Rightarrow> string \<Rightarrow> string" where
  "or_else v d = (case v of None \<Rightarrow> d | Some s \<Rightarrow> (if s = [] then d else s))"

definition digit_char :: "nat \<Rightarrow> char" where
  "digit_char d = ''0123456789abcdef'' ! d"

text \<open>\<open>Number.prototype.toString(radix)\<close> on a non-negative integer, for radix 10 and 16.\<close>

function to_radix :: "nat \<Rightarrow> nat \<Rightarrow> string" where
  "to_radix b n =
     (if b < 2 \<or> n < b then [digit_char n] else to_radix b (n div b) @ [digit_char (n mod b)])"
  by pat_completeness auto
termination
  by (relation "measure (\<lambda>(b, n). n)") auto

definition to_hex :: "nat \<Rightarrow> string" where
  "to_hex n = to_radix 16 n"

definition to_decimal :: "int \<Rightarrow> string" where
  "to_decimal i = (if i < 0 then CHR ''-'' # to_radix 10 (nat (- i)) else to_radix 10 (nat i))"

section \<open>The credential provider (dist/chunk-J6MO4N63.js)\<close>

subsection \<open>hashString\<close>

text \<open>
  \<open>hash = (hash << 5) - hash + char; hash = hash & hash\<close> keeps \<open>hash\<close> a signed 32-bit
  integer: the shift and the \<open>&\<close> wrap modulo \<open>2^32\<close>, and the arithmetic in between is exact.
  The result is \<open>Math.abs(hash).toString(16)\<close>.
\<close>

definition hash_step :: "32 word \<Rightarrow> char \<Rightarrow> 32 word" where
  "hash_step h c = push_bit 5 h - h + of_nat (of_char c)"

definition hashString :: "string \<Rightarrow> string" where
  "hashString str = to_hex (nat \<bar>sint (foldl hash_step 0 str)\<bar>)"

subsection \<open>localStorage\<close>

record stored_options =
  so_serverUrl :: string
  so_storageKeyPrefix :: string
  so_clientName :: string
  so_clientUri :: string
  so_callbackUrl :: string

text \<open>
  The \<open>StoredState\<close> object kept under a correlation token. An object that lacks
  \<open>expiry\<close> behaves on every path like one with \<open>expiry = 0\<close> (both are falsy), so the
  field is a plain number.
\<close>

record stored_state =
  st_serverUrlHash :: string
  expiry :: int
  providerOptions :: "stored_options option"

text \<open>
  A value of \<open>localStorage\<close>, by what \<open>JSON.parse\<close> makes of its text:
  \<^item> \<open>Text s\<close>: the text \<open>s\<close>, which \<open>JSON.parse\<close> rejects; raw strings the provider writes
    (PKCE verifiers, URLs) are kept this way;
  \<^item> \<open>StateJson r\<close>: the JSON text of the \<open>StoredState\<close> object \<open>r\<close>;
  \<^item> \<open>ObjectJson s\<close>: the JSON text \<open>s\<close> of any other value but \<open>null\<close> (token sets, client
    registrations): reading \<open>.expiry\<close> or \<open>.serverUrlHash\<close> of it gives \<open>undefined\<close>;
  \<^item> \<open>NullJson\<close>: the text \<open>null\<close>, on which a property read throws a TypeError.
  So \<open>JSON.parse (JSON.stringify x)\<close> is \<open>x\<close> by construction.
\<close>

datatype entry = Text string | StateJson stored_state | ObjectJson string | NullJson

text \<open>Keys are unique; the list order is the order of \<open>localStorage.key(i)\<close>.\<close>

type_synonym storage = "(string \<times> entry) list"

definition getItem :: "storage \<Rightarrow> string \<Rightarrow> entry option" where
  "getItem st k = map_of st k"

fun setItem :: "storage \<Rightarrow> string \<Rightarrow> entry \<Rightarrow> storage" where
  "setItem [] k v = [(k, v)]"
| "setItem ((k', v') # st) k v = (if k' = k then (k, v) # st else (k', v') # setItem st k v)"

definition removeItem :: "storage \<Rightarrow> string \<Rightarrow> storage" where
  "removeItem st k = filter (\<lambda>kv. fst kv \<noteq> k) st"

text \<open>\<open>if (item)\<close> on the result of \<open>getItem\<close>: \<open>null\<close> and the empty text are falsy.\<close>

definition present :: "entry option \<Rightarrow> bool" where
  "present item = (case item of None \<Rightarrow> False | Some (Text s) \<Rightarrow> s \<noteq> [] | Some _ \<Rightarrow> True)"

text \<open>
  The text of an entry, as \<open>getItem\<close> returns it. Strings inside a \<open>StoredState\<close> are
  written without JSON escapes: it is the text of \<open>JSON.stringify\<close> for strings that need
  none (no quote, backslash or control character).
\<close>

definition quoted :: "string \<Rightarrow> string" where
  "quoted s = [CHR 0x22] @ s @ [CHR 0x22]"

definition stringify_options :: "stored_options \<Rightarrow> string" where
  "stringify_options po =
     ''{'' @ quoted ''serverUrl'' @ '':'' @ quoted (so_serverUrl po) @ '','' @
     quoted ''storageKeyPrefix'' @ '':'' @ quoted (so_storageKeyPrefix po) @ '','' @
     quoted ''clientName'' @ '':'' @ quoted (so_clientName po) @ '','' @
     quoted ''clientUri'' @ '':'' @ quoted (so_clientUri po) @ '','' @
     quoted ''callbackUrl'' @ '':'' @ quoted (so_callbackUrl po) @ ''}''"

definition stringify_state :: "stored_state \<Rightarrow> string" where
  "stringify_state r =
     ''{'' @ quoted ''serverUrlHash'' @ '':'' @ quoted (st_serverUrlHash r) @ '','' @
     quoted ''expiry'' @ '':'' @ to_decimal (expiry r) @
     (case providerOptions r of None \<Rightarrow> []
      | Some po \<Rightarrow> '','' @ quoted ''providerOptions'' @ '':'' @ stringify_options po) @ ''}''"

fun entry_text :: "entry \<Rightarrow> string" where
  "entry_text (Text s) = s"
| "entry_text (StateJson r) = stringify_state r"
| "entry_text (ObjectJson s) = s"
| "entry_text NullJson = ''null''"

subsection \<open>BrowserOAuthClientProvider\<close>

record provider_options =
  opt_storageKeyPrefix :: "string option"
  opt_clientName :: "string option"
  opt_clientUri :: "string option"
  opt_callbackUrl :: "string option"

record provider =
  serverUrl :: string
  storageKeyPrefix :: string
  serverUrlHash :: string
  clientName :: string
  clientUri :: string
  callbackUrl :: string

text \<open>
  The constructor, in a browser: \<open>origin\<close> is \<open>window.location.origin\<close>, and
  \<open>new URL("/oauth/callback", origin).toString()\<close> is the origin followed by the path.
\<close>

definition BrowserOAuthClientProvider :: "string \<Rightarrow> string \<Rightarrow> provider_options \<Rightarrow> provider" where
  "BrowserOAuthClientProvider origin url options =
     \<lparr> serverUrl = url,
       storageKeyPrefix = or_else (opt_storageKeyPrefix options) ''mcp:auth'',
       serverUrlHash = hashString url,
       clientName = or_else (opt_clientName options) ''MCP Browser Client'',
       clientUri = or_else (opt_clientUri options) origin,
       callbackUrl = or_else (opt_callbackUrl options) (origin @ ''/oauth/callback'') \<rparr>"

definition getKey :: "provider \<Rightarrow> string \<Rightarrow> string" where
  "getKey p keySuffix = storageKeyPrefix p @ ''_'' @ serverUrlHash p @ ''_'' @ keySuffix"

text \<open>
  The key of a correlation record, \<open>`${this.storageKeyPrefix}:state_${state}`\<close>, and the two
  patterns \<open>clearStorage\<close> matches keys against.
\<close>

definition stateKey :: "provider \<Rightarrow> string \<Rightarrow> string" where
  "stateKey p state = storageKeyPrefix p @ '':state_'' @ state"

definition prefixPattern :: "provider \<Rightarrow> string" where
  "prefixPattern p = storageKeyPrefix p @ ''_'' @ serverUrlHash p @ ''_''"

definition statePattern :: "provider \<Rightarrow> string" where
  "statePattern p = storageKeyPrefix p @ '':state_''"

text \<open>
  \<open>clientInformation()\<close> and \<open>tokens()\<close>: the parsed value (here the entry itself), and the
  storage, from which an entry that does not parse is dropped.
\<close>

definition read_json :: "provider \<Rightarrow> string \<Rightarrow> storage \<Rightarrow> entry option \<times> storage" where
  "read_json p keySuffix st =
     (let key = getKey p keySuffix; data = getItem st key in
      if \<not> present data then (None, st)
      else (case data of
              Some (Text s) \<Rightarrow> (None, removeItem st key)
            | _ \<Rightarrow> (data, st)))"

definition clientInformation :: "provider \<Rightarrow> storage \<Rightarrow> entry option \<times> storage" where
  "clientInformation p st = read_json p ''client_info'' st"

definition saveClientInformation :: "provider \<Rightarrow> string \<Rightarrow> storage \<Rightarrow> storage" where
  "saveClientInformation p clientInformationJson st =
     setItem st (getKey p ''client_info'') (ObjectJson clientInformationJson)"

definition tokens :: "provider \<Rightarrow> storage \<Rightarrow> entry option \<times> storage" where
  "tokens p st = read_json p ''tokens'' st"

definition saveTokens :: "provider \<Rightarrow> string \<Rightarrow> storage \<Rightarrow> storage" where
  "saveTokens p tokensJson st =
     removeItem
       (removeItem (setItem st (getKey p ''tokens'') (ObjectJson tokensJson))
          (getKey p ''code_verifier''))
       (getKey p ''last_auth_url'')"

definition saveCodeVerifier :: "provider \<Rightarrow> string \<Rightarrow> storage \<Rightarrow> storage" where
  "saveCodeVerifier p v st = setItem st (getKey p ''code_verifier'') (Text v)"

text \<open>\<open>codeVerifier()\<close> throws when the verifier is missing: \<open>Inl\<close> is the error's message.\<close>

definition codeVerifier :: "provider \<Rightarrow> storage \<Rightarrow> string + string" where
  "codeVerifier p st =
     (let key = getKey p ''code_verifier''; verifier = getItem st key in
      if \<not> present verifier
      then Inl (''['' @ storageKeyPrefix p @ ''] Code verifier not found in storage for key '' @ key @
                ''. Auth flow likely corrupted or timed out.'')
      else Inr (case verifier of Some e \<Rightarrow> entry_text e | None \<Rightarrow> []))"

text \<open>
  An authorization URL: the address up to the query, and \<open>searchParams\<close>.
  \<open>searchParams.set\<close> replaces the first pair of that name and drops the others.
  \<open>url_toString\<close> writes the names and values as they are: it is the text of \<open>toString()\<close>
  for a query whose names and values need no percent-encoding.
\<close>

record URL =
  address :: string
  searchParams :: "(string \<times> string) list"

fun searchParams_set :: "(string \<times> string) list \<Rightarrow> string \<Rightarrow> string \<Rightarrow> (string \<times> string) list" where
  "searchParams_set [] k v = [(k, v)]"
| "searchParams_set ((k', v') # ps) k v =
     (if k' = k then (k, v) # filter (\<lambda>kv. fst kv \<noteq> k) ps else (k', v') # searchParams_set ps k v)"

fun query_text :: "(string \<times> string) list \<Rightarrow> string" where
  "query_text [] = []"
| "query_text [(k, v)] = k @ ''='' @ v"
| "query_text ((k, v) # ps) = k @ ''='' @ v @ ''&'' @ query_text ps"

definition url_toString :: "URL \<Rightarrow> string" where
  "url_toString u =
     (if searchParams u = [] then address u else address u @ ''?'' @ query_text (searchParams u))"

text \<open>
  \<open>redirectToAuthorization\<close>: \<open>uuid\<close> is what \<open>crypto.randomUUID()\<close> returns and \<open>now\<close> what
  \<open>Date.now()\<close> returns. Opening the popup only writes to the console.
\<close>

definition stateData :: "provider \<Rightarrow> int \<Rightarrow> stored_state" where
  "stateData p now =
     \<lparr> st_serverUrlHash = serverUrlHash p,
       expiry = now + 1000 * 60 * 10,
       providerOptions = Some \<lparr> so_serverUrl = serverUrl p,
                                so_storageKeyPrefix = storageKeyPrefix p,
                                so_clientName = clientName p,
                                so_clientUri = clientUri p,
                                so_callbackUrl = callbackUrl p \<rparr> \<rparr>"

definition redirectToAuthorization :: "provider \<Rightarrow> URL \<Rightarrow> string \<Rightarrow> int \<Rightarrow> storage \<Rightarrow> storage" where
  "redirectToAuthorization p authorizationUrl uuid now st =
     (let st1 = setItem st (stateKey p uuid) (StateJson (stateData p now));
          authUrlString =
            url_toString (authorizationUrl\<lparr>searchParams :=
              searchParams_set (searchParams authorizationUrl) ''state'' uuid\<rparr>)
      in setItem st1 (getKey p ''last_auth_url'') (Text authUrlString))"

definition getLastAttemptedAuthUrl :: "provider \<Rightarrow> storage \<Rightarrow> string option" where
  "getLastAttemptedAuthUrl p st = map_option entry_text (getItem st (getKey p ''last_auth_url''))"

text \<open>
  \<open>clearStorage\<close>. The loop over \<open>localStorage.key(i)\<close> collects the keys; a key under the
  state pattern is collected when its value parses to an object whose \<open>serverUrlHash\<close> is
  this provider's (a value that does not parse, or \<open>null\<close>, throws inside the \<open>try\<close> and is
  skipped).
\<close>

definition collect_key :: "provider \<Rightarrow> storage \<Rightarrow> string \<Rightarrow> string list" where
  "collect_key p st key =
     (if key = [] then []
      else if startsWith key (prefixPattern p) then [key]
      else if startsWith key (statePattern p) then
        (let item = getItem st key in
         if present item then
           (case item of
              Some (StateJson state) \<Rightarrow> (if st_serverUrlHash state = serverUrlHash p then [key] else [])
            | _ \<Rightarrow> [])
         else [])
      else [])"

text \<open>\<open>[...new Set(keys)]\<close> keeps the first occurrence of each key.\<close>

definition unique :: "string list \<Rightarrow> string list" where
  "unique ks = rev (remdups (rev ks))"

definition clearStorage :: "provider \<Rightarrow> storage \<Rightarrow> nat \<times> storage" where
  "clearStorage p st =
     (let keysToRemove = concat (map (collect_key p st) (map fst st));
          uniqueKeysToRemove = unique keysToRemove
      in (length uniqueKeysToRemove, foldl removeItem st uniqueKeysToRemove))"

subsection \<open>The SDK's auth routine\<close>

text \<open>
  \<open>auth(provider, ...)\<close> belongs to the protocol SDK. The model takes what one run of it
  does as a script: the provider methods it calls, in order, and what it returns. A
  provider method that throws (\<open>codeVerifier\<close> on a missing verifier) ends the run with that
  error; what was stored before stays stored.
\<close>

datatype provider_call =
    CallClientInformation
  | CallSaveClientInformation string
  | CallTokens
  | CallSaveTokens string
  | CallSaveCodeVerifier string
  | CallCodeVerifier
  | CallRedirectToAuthorization URL string int

datatype auth_result = AUTHORIZED | REDIRECT | AuthThrows string

record auth_script =
  sdk_calls :: "provider_call list"
  sdk_result :: auth_result

fun run_calls :: "provider \<Rightarrow> provider_call list \<Rightarrow> storage \<Rightarrow> string option \<times> storage" where
  "run_calls p [] st = (None, st)"
| "run_calls p (CallClientInformation # cs) st = run_calls p cs (snd (clientInformation p st))"
| "run_calls p (CallSaveClientInformation j # cs) st = run_calls p cs (saveClientInformation p j st)"
| "run_calls p (CallTokens # cs) st = run_calls p cs (snd (tokens p st))"
| "run_calls p (CallSaveTokens j # cs) st = run_calls p cs (saveTokens p j st)"
| "run_calls p (CallSaveCodeVerifier v # cs) st = run_calls p cs (saveCodeVerifier p v st)"
| "run_calls p (CallCodeVerifier # cs) st =
     (case codeVerifier p st of Inl m \<Rightarrow> (Some m, st) | Inr v \<Rightarrow> run_calls p cs st)"
| "run_calls p (CallRedirectToAuthorization u uuid now # cs) st =
     run_calls p cs (redirectToAuthorization p u uuid now st)"

definition auth :: "provider \<Rightarrow> auth_script \<Rightarrow> storage \<Rightarrow> auth_result \<times> storage" where
  "auth p script st =
     (case run_calls p (sdk_calls script) st of
        (Some m, st') \<Rightarrow> (AuthThrows m, st')
      | (None, st') \<Rightarrow> (sdk_result script, st'))"

section \<open>The callback completion handler (onMcpAuthorization)\<close>

record callback_query =
  q_code :: "string option"
  q_state :: "string option"
  q_error :: "string option"
  q_error_description :: "string option"

text \<open>
  What the handler reads from its surroundings: \<open>Date.now()\<close>, \<open>window.location.origin\<close>,
  whether \<open>window.opener\<close> is there and not closed, and the run of \<open>auth\<close>.
\<close>

record callback_env =
  cb_now :: int
  cb_origin :: string
  cb_opener :: bool
  cb_auth :: auth_script

text \<open>The message \<open>{type: "mcp_auth_callback", success, error?}\<close> posted to the opener.\<close>

datatype opener_message = AuthCallback bool "string option"

record callback_result =
  cb_storage :: storage
  cb_posted :: "opener_message option"
  cb_error :: "string option"
  cb_window_closed :: bool
  cb_location :: "string option"

text \<open>\<open>const stateKey = state ? `mcp:auth:state_${state}` : null\<close>\<close>

definition callback_state_key :: "string \<Rightarrow> string" where
  "callback_state_key state = ''mcp:auth:state_'' @ state"

definition stateKey_of :: "string option \<Rightarrow> string option" where
  "stateKey_of state = (if truthy state then Some (callback_state_key (or_else state [])) else None)"

definition expired_message :: string where
  "expired_message = ''OAuth state has expired. Please try initiating authentication again.''"

definition no_matching_state_message :: "string \<Rightarrow> string" where
  "no_matching_state_message state =
     ''Invalid or expired state parameter '' @ quoted state @ ''. No matching state found in storage.''"

text \<open>
  The \<open>try\<close> block. \<open>Inl (message, provider, storage)\<close> is a throw: the error's message, the
  provider if it was rebuilt before the throw, and the storage at the throw. \<open>Inr\<close> is the
  storage after the success path.
\<close>

definition callback_try ::
  "callback_query \<Rightarrow> callback_env \<Rightarrow> storage \<Rightarrow> (string \<times> provider option \<times> storage) + storage" where
  "callback_try q env st =
     (if truthy (q_error q) then
        Inl (''OAuth error: '' @ or_else (q_error q) [] @ '' - '' @
             or_else (q_error_description q) ''No description provided.'', None, st)
      else if \<not> truthy (q_code q) then
        Inl (''Authorization code not found in callback query parameters.'', None, st)
      else
        (case stateKey_of (q_state q) of
           None \<Rightarrow> Inl (''State parameter not found or invalid in callback query parameters.'', None, st)
         | Some key \<Rightarrow>
            (let storedStateJSON = getItem st key in
             if \<not> present storedStateJSON then
               Inl (no_matching_state_message (or_else (q_state q) []), None, st)
             else
               (case storedStateJSON of
                  None \<Rightarrow> Inl (no_matching_state_message (or_else (q_state q) []), None, st)
                | Some (Text s) \<Rightarrow> Inl (''Failed to parse stored OAuth state.'', None, st)
                | Some NullJson \<Rightarrow>
                    Inl (''Cannot read properties of null (reading 'expiry')'', None, st)
                | Some (ObjectJson s) \<Rightarrow> Inl (expired_message, None, removeItem st key)
                | Some (StateJson storedStateData) \<Rightarrow>
                    if expiry storedStateData = 0 \<or> expiry storedStateData < cb_now env then
                      Inl (expired_message, None, removeItem st key)
                    else
                      (case providerOptions storedStateData of
                         None \<Rightarrow> Inl (''Stored state is missing required provider options.'', None, st)
                       | Some po \<Rightarrow>
                          (let provider =
                                 BrowserOAuthClientProvider (cb_origin env) (so_serverUrl po)
                                   \<lparr> opt_storageKeyPrefix = Some (so_storageKeyPrefix po),
                                     opt_clientName = Some (so_clientName po),
                                     opt_clientUri = Some (so_clientUri po),
                                     opt_callbackUrl = Some (so_callbackUrl po) \<rparr>
                           in (case auth provider (cb_auth env) st of
                                 (AUTHORIZED, st1) \<Rightarrow> Inr (removeItem st1 key)
                               | (REDIRECT, st1) \<Rightarrow>
                                   Inl (''Unexpected result from authentication library: REDIRECT'',
                                        Some provider, st1)
                               | (AuthThrows m, st1) \<Rightarrow> Inl (m, Some provider, st1))))))))"

text \<open>The \<open>catch\<close> block's removals: the state key, then the provider's leftovers.\<close>

definition callback_cleanup :: "string option \<Rightarrow> provider option \<Rightarrow> storage \<Rightarrow> storage" where
  "callback_cleanup key provider st =
     (let st1 = (case key of Some k \<Rightarrow> removeItem st k | None \<Rightarrow> st) in
      case provider of
        Some p \<Rightarrow> removeItem (removeItem st1 (getKey p ''code_verifier'')) (getKey p ''last_auth_url'')
      | None \<Rightarrow> st1)"

definition onMcpAuthorization :: "callback_query \<Rightarrow> callback_env \<Rightarrow> storage \<Rightarrow> callback_result" where
  "onMcpAuthorization q env st =
     (case callback_try q env st of
        Inr st' \<Rightarrow>
          \<lparr> cb_storage = st',
            cb_posted = (if cb_opener env then Some (AuthCallback True None) else None),
            cb_error = None,
            cb_window_closed = cb_opener env,
            cb_location = (if cb_opener env then None else Some ''/'') \<rparr>
      | Inl (errorMessage, provider, st') \<Rightarrow>
          \<lparr> cb_storage = callback_cleanup (stateKey_of (q_state q)) provider st',
            cb_posted = (if cb_opener env then Some (AuthCallback False (Some errorMessage)) else None),
            cb_error = Some errorMessage,
            cb_window_closed = False,
            cb_location = None \<rparr>)"

text \<open>
  The keys a server identity owns, in the spec's words: the credential keys
  \<open>{prefix}_{serverHash}_...\<close>, and the correlation records under \<open>{prefix}:state_...\<close> whose
  stored \<open>serverUrlHash\<close> is that identity's.
\<close>

definition in_namespace :: "provider \<Rightarrow> string \<Rightarrow> entry \<Rightarrow> bool" where
  "in_namespace p key v =
     (if startsWith key (prefixPattern p) then True
      else if startsWith key (statePattern p) then
        (case v of StateJson r \<Rightarrow> st_serverUrlHash r = serverUrlHash p | _ \<Rightarrow> False)
      else False)"

section \<open>The connection orchestrator (useMcp, dist/react/index.js)\<close>

subsection \<open>State\<close>

datatype conn_state = Discovering | Authenticating | Connecting | Loading | Ready | Failed

fun state_name :: "conn_state \<Rightarrow> string" where
  "state_name Discovering = ''discovering''"
| "state_name Authenticating = ''authenticating''"
| "state_name Connecting = ''connecting''"
| "state_name Loading = ''loading''"
| "state_name Ready = ''ready''"
| "state_name Failed = ''failed''"

datatype level = LDebug | LInfo | LWarn | LError

datatype transport_type = Http | Sse

text \<open>\<open>transportType.toUpperCase()\<close>\<close>

fun upper :: "transport_type \<Rightarrow> string" where
  "upper Http = ''HTTP''"
| "upper Sse = ''SSE''"

text \<open>What \<open>tryConnectWithTransport\<close> returns.\<close>

datatype attempt_result = Success | Fallback | AuthRedirect | AttemptFailed

fun result_name :: "attempt_result \<Rightarrow> string" where
  "result_name Success = ''success''"
| "result_name Fallback = ''fallback''"
| "result_name AuthRedirect = ''auth_redirect''"
| "result_name AttemptFailed = ''failed''"

record log_entry =
  level :: level
  message :: string
  timestamp :: int

text \<open>
  The options of the hook that the modelled code reads. \<open>url_error\<close> is the message of the
  error \<open>new URL(url)\<close> throws, \<open>None\<close> when the address parses; \<open>window_origin\<close> is
  \<open>window.location.origin\<close>.
\<close>

record config =
  url :: string
  url_error :: "string option"
  window_origin :: string
  opt_prefix :: "string option"
  opt_name :: "string option"
  opt_uri :: "string option"
  opt_callback :: "string option"

text \<open>
  The hook's state: the React state (\<open>state\<close> ... \<open>authUrl\<close>, each the value last given to its
  setter), the refs, and what the hook acts on: \<open>localStorage\<close>, the console, the transports
  constructed so far (\<open>created\<close>), the methods passed to \<open>client.request\<close> (\<open>requested\<close>) and the
  clock (\<open>Date.now()\<close>).

  \<open>stateRef\<close> is \<open>stateRef.current\<close>: the effect \<open>stateRef.current = state\<close> copies the state
  into it when React commits a render, so between a \<open>setState\<close> and the next commit the two
  differ. \<open>clientRef\<close> says whether \<open>clientRef.current\<close> is a client, \<open>authTimeoutRef\<close> whether
  an authorization timeout is pending.
\<close>

record hook =
  state :: conn_state
  tools :: "string list"
  resources :: "string list"
  prompts :: "string list"
  error :: "string option"
  log :: "log_entry list"
  authUrl :: "string option"
  clientRef :: bool
  transportRef :: "transport_type option"
  authProviderRef :: "provider option"
  connectingRef :: bool
  isMountedRef :: bool
  connectAttemptRef :: nat
  authTimeoutRef :: bool
  stateRef :: conn_state
  successfulTransportRef :: "transport_type option"
  localStorage :: storage
  console :: "(level \<times> string) list"
  created :: "transport_type list"
  requested :: "string list"
  clock :: int

text \<open>The initial values of \<open>useState\<close> and \<open>useRef\<close>.\<close>

definition initial_hook :: hook where
  "initial_hook =
     \<lparr> state = Discovering, tools = [], resources = [], prompts = [], error = None, log = [],
       authUrl = None, clientRef = False, transportRef = None, authProviderRef = None,
       connectingRef = False, isMountedRef = True, connectAttemptRef = 0, authTimeoutRef = False,
       stateRef = Discovering, successfulTransportRef = None, localStorage = [], console = [],
       created = [], requested = [], clock = 0 \<rparr>"

subsection \<open>addLog, disconnect, failConnection\<close>

text \<open>
  \<open>args\<close> are the extra arguments, each already as \<open>JSON.stringify\<close> renders it
  (\<open>{}\<close> for an \<open>Error\<close>). The console gets every message; the log feed only while mounted:
  \<open>[...prevLog.slice(-100), entry]\<close>.
\<close>

fun join_args :: "string list \<Rightarrow> string" where
  "join_args [] = []"
| "join_args [a] = a"
| "join_args (a # as) = a @ '' '' @ join_args as"

definition fullMessage :: "string \<Rightarrow> string list \<Rightarrow> string" where
  "fullMessage msg args = (if args = [] then msg else msg @ '' '' @ join_args args)"

definition addLog :: "level \<Rightarrow> string \<Rightarrow> string list \<Rightarrow> hook \<Rightarrow> hook" where
  "addLog lvl msg args h =
     (let h1 = h\<lparr>console := console h @ [(lvl, ''[useMcp] '' @ fullMessage msg args)]\<rparr> in
      if isMountedRef h1 then
        h1\<lparr>log := drop (length (log h1) - 100) (log h1) @
                    [\<lparr>level = lvl, message = fullMessage msg args, timestamp = clock h1\<rparr>]\<rparr>
      else h1)"

fun addLogs :: "(level \<times> string) list \<Rightarrow> hook \<Rightarrow> hook" where
  "addLogs [] h = h"
| "addLogs ((lvl, msg) # ms) h = addLogs ms (addLog lvl msg [] h)"

text \<open>
  \<open>disconnect(quiet)\<close>; \<open>close_failed\<close> says whether \<open>transport.close()\<close> rejects.
\<close>

definition disconnect :: "bool \<Rightarrow> bool \<Rightarrow> hook \<Rightarrow> hook" where
  "disconnect quiet close_failed h =
     (let h1 = (if \<not> quiet then addLog LInfo ''Disconnecting...'' [] h else h);
          transport = transportRef h1;
          h2 = h1\<lparr>connectingRef := False, authTimeoutRef := False, clientRef := False,
                  transportRef := None\<rparr>;
          h3 = (if isMountedRef h2 \<and> \<not> quiet then
                  h2\<lparr>state := Discovering, tools := [], resources := [], prompts := [],
                      error := None, authUrl := None\<rparr>
                else h2)
      in case transport of
           None \<Rightarrow> h3
         | Some t \<Rightarrow>
             (if quiet then h3
              else if close_failed then addLog LWarn ''Error closing transport:'' [''{}''] h3
              else addLog LDebug ''Transport closed'' [] h3))"

text \<open>
  \<open>failConnection(errorMessage, connectionError)\<close>; \<open>has_error\<close> says whether an \<open>Error\<close> was
  passed (else \<open>connectionError ?? ""\<close> logs the empty string).
\<close>

definition failConnection :: "string \<Rightarrow> bool \<Rightarrow> hook \<Rightarrow> hook" where
  "failConnection errorMessage has_error h =
     (let h1 = addLog LError errorMessage [if has_error then ''{}'' else quoted []] h;
          h2 = (if isMountedRef h1 then
                  (let h3 = h1\<lparr>state := Failed, error := Some errorMessage\<rparr>;
                       manualUrl = (case authProviderRef h3 of
                                      None \<Rightarrow> None
                                    | Some p \<Rightarrow> getLastAttemptedAuthUrl p (localStorage h3))
                   in if truthy manualUrl then
                        addLog LInfo ''Manual authentication URL may be available.''
                          [quoted (or_else manualUrl [])] (h3\<lparr>authUrl := manualUrl\<rparr>)
                      else h3)
                else h1)
      in h2\<lparr>connectingRef := False\<rparr>)"

subsection \<open>Suspension points\<close>

text \<open>
  The code runs on one thread; other work runs only while it waits at an \<open>await\<close>. Of that
  other work the model has two kinds: React commits the pending render, so that the effect
  copies \<open>state\<close> into \<open>stateRef.current\<close> (\<open>commit\<close>); and the component is unmounted
  (\<open>unmount\<close>), which runs the cleanups of the effects: the message listener's (a log line,
  the timeout cleared) and the mount effect's (\<open>isMountedRef.current = false\<close>, a log line,
  \<open>disconnect(true)\<close>). \<open>elapsed\<close> is the time that passes.
\<close>

record tick =
  commit :: bool
  unmount :: bool
  elapsed :: int

definition unmount_cleanup :: "hook \<Rightarrow> hook" where
  "unmount_cleanup h =
     (let h1 = (addLog LDebug ''Auth callback message listener removed.'' [] h)\<lparr>authTimeoutRef := False\<rparr>;
          h2 = addLog LDebug ''useMcp unmounting, disconnecting.'' [] (h1\<lparr>isMountedRef := False\<rparr>)
      in disconnect True False h2)"

definition await :: "tick \<Rightarrow> hook \<Rightarrow> hook" where
  "await t h =
     (let h1 = h\<lparr>clock := clock h + elapsed t\<rparr> in
      if isMountedRef h1 then
        (let h2 = (if commit t then h1\<lparr>stateRef := state h1\<rparr> else h1) in
         if unmount t then unmount_cleanup h2 else h2)
      else h1)"

subsection \<open>connect\<close>

text \<open>A rejection: the error's message, and whether it is an \<open>UnauthorizedError\<close>.\<close>

record rejection =
  err_message :: string
  err_unauthorized :: bool

text \<open>
  What one call of \<open>tryConnectWithTransport\<close> meets at its four suspension points: closing
  the previous transport, \<open>client.connect\<close> (\<open>None\<close>: it resolves), the three catalog requests
  (\<open>Inl\<close>: the reason of a rejection, \<open>Inr\<close>: the entries) and the SDK's \<open>auth\<close>.
\<close>

record attempt_env =
  close_error :: "string option"
  close_tick :: tick
  connect_outcome :: "rejection option"
  connect_tick :: tick
  tools_response :: "string + string list"
  resources_response :: "string + string list"
  prompts_response :: "string + string list"
  load_tick :: tick
  auth_run :: auth_script
  auth_tick :: tick

text \<open>The provider the hook constructs, with the defaults of its options.\<close>

definition new_provider :: "config \<Rightarrow> provider" where
  "new_provider cfg =
     BrowserOAuthClientProvider (window_origin cfg) (url cfg)
       \<lparr> opt_storageKeyPrefix = Some (case opt_prefix cfg of None \<Rightarrow> ''mcp:auth'' | Some s \<Rightarrow> s),
         opt_clientName = opt_name cfg,
         opt_clientUri = opt_uri cfg,
         opt_callbackUrl =
           Some (case opt_callback cfg of None \<Rightarrow> window_origin cfg @ ''/oauth/callback'' | Some s \<Rightarrow> s) \<rparr>"

text \<open>The lines of \<open>connect\<close> between its two guards and the first transport attempt.\<close>

definition connect_init :: "config \<Rightarrow> hook \<Rightarrow> hook" where
  "connect_init cfg h =
     (let h1 = h\<lparr>connectingRef := True, connectAttemptRef := connectAttemptRef h + 1,
                  error := None, authUrl := None, successfulTransportRef := None,
                  state := Discovering\<rparr>;
          h2 = addLog LInfo (''Connecting attempt #'' @ to_decimal (int (connectAttemptRef h1)) @
                             '' to '' @ url cfg @ ''...'') [] h1;
          h3 = (if authProviderRef h2 = None then
                  addLog LDebug ''BrowserOAuthClientProvider initialized in connect.'' []
                    (h2\<lparr>authProviderRef := Some (new_provider cfg)\<rparr>)
                else h2)
      in if clientRef h3 then h3
         else addLog LDebug ''MCP Client initialized in connect.'' [] (h3\<lparr>clientRef := True\<rparr>))"

text \<open>
  The end of \<open>connect\<close>, from \<open>if (finalStatus === "fallback")\<close> on.
\<close>

definition finish :: "attempt_result \<Rightarrow> hook \<Rightarrow> hook" where
  "finish finalStatus h =
     (let h1 = (if finalStatus = Fallback then failConnection ''All transport methods failed'' False h
                else h);
          status = (if finalStatus = Fallback then AttemptFailed else finalStatus);
          h2 = (if status = Success then h1\<lparr>connectingRef := False\<rparr>
                else if status = AttemptFailed then h1\<lparr>connectingRef := False\<rparr>
                else h1)
      in addLog LDebug (''Connection sequence finished with status: '' @ result_name status) [] h2)"

text \<open>
  When an attempt answers \<open>AUTHORIZED\<close> it calls \<open>connect()\<close> and returns \<open>"failed"\<close>. The new
  call runs up to its first \<open>await\<close>; then the old call of \<open>connect\<close> runs to its end
  (\<open>finish AttemptFailed\<close>); then the new call goes on. \<open>pending\<close> says that an old call has
  still to end, and \<open>resume_outer\<close> ends it at the new call's first suspension.
\<close>

definition resume_outer :: "bool \<Rightarrow> hook \<Rightarrow> hook" where
  "resume_outer pending h = (if pending then finish AttemptFailed h else h)"

definition is404 :: "string \<Rightarrow> bool" where
  "is404 errorMessage = (if includes_str errorMessage ''404'' then True else includes_str errorMessage ''Not Found'')"

definition is405 :: "string \<Rightarrow> bool" where
  "is405 errorMessage =
     (if includes_str errorMessage ''405'' then True else includes_str errorMessage ''Method Not Allowed'')"

definition isLikelyCors :: "string \<Rightarrow> bool" where
  "isLikelyCors errorMessage =
     (errorMessage = ''Failed to fetch'' \<or>
      errorMessage = ''NetworkError when attempting to fetch resource.'' \<or>
      errorMessage = ''Load failed'')"

definition is_unauthorized :: "rejection \<Rightarrow> bool" where
  "is_unauthorized err =
     (err_unauthorized err \<or> includes_str (err_message err) ''Unauthorized'' \<or>
      includes_str (err_message err) ''401'')"

text \<open>
  The TypeError of a call on \<open>clientRef.current\<close> when it is \<open>null\<close> (after a disconnect), in
  V8's wording.
\<close>

definition null_client_error :: "string \<Rightarrow> rejection" where
  "null_client_error method =
     \<lparr> err_message = ''Cannot read properties of null (reading '' @ [CHR 0x27] @ method @ [CHR 0x27] @ '')'',
       err_unauthorized = False \<rparr>"

text \<open>
  A result of \<open>tryConnectWithTransport\<close> is the value returned, whether \<open>connect()\<close> was
  called again on the way, and the hook. First the \<open>catch\<close> of the transport's
  construction.
\<close>

definition fail_create :: "transport_type \<Rightarrow> string \<Rightarrow> bool \<Rightarrow> hook \<Rightarrow> attempt_result \<times> bool \<times> hook" where
  "fail_create t msg pending h =
     (AttemptFailed, False,
      resume_outer pending (failConnection (''Failed to create '' @ upper t @ '' transport: '' @ msg) True h))"

text \<open>The \<open>catch (sdkAuthError)\<close> of the authorization flow.\<close>

definition auth_failed :: "transport_type \<Rightarrow> string \<Rightarrow> hook \<Rightarrow> attempt_result \<times> bool \<times> hook" where
  "auth_failed t msg h =
     (if \<not> isMountedRef h then (AttemptFailed, False, h)
      else
        (let h1 = addLog LError ''Auth flow failed:'' [''{}''] (h\<lparr>authTimeoutRef := False\<rparr>) in
         if t = Http then (Fallback, False, h1)
         else (AttemptFailed, False, failConnection (''Failed to initiate authentication: '' @ msg) True h1)))"

text \<open>The branch of an unauthorized error.\<close>

definition begin_auth :: "hook \<Rightarrow> hook" where
  "begin_auth h =
     (let h1 = addLog LInfo ''Authentication required. Initiating SDK auth flow...'' [] h in
      if stateRef h1 \<noteq> Authenticating then h1\<lparr>state := Authenticating, authTimeoutRef := True\<rparr>
      else h1)"

definition auth_flow :: "transport_type \<Rightarrow> attempt_env \<Rightarrow> hook \<Rightarrow> attempt_result \<times> bool \<times> hook" where
  "auth_flow t e h =
     (let h2 = begin_auth h
      in case authProviderRef h2 of
           None \<Rightarrow> auth_failed t ''Auth Provider not available for auth flow'' h2
         | Some p \<Rightarrow>
             (case auth p (auth_run e) (localStorage h2) of
                (authResult, st) \<Rightarrow>
                  (let h3 = await (auth_tick e) (h2\<lparr>localStorage := st\<rparr>) in
                   case authResult of
                     AuthThrows msg \<Rightarrow> auth_failed t msg h3
                   | AUTHORIZED \<Rightarrow>
                       (if \<not> isMountedRef h3 then (AttemptFailed, False, h3)
                        else (AttemptFailed, True,
                              (addLog LInfo ''Authentication successful via existing token or refresh. Re-attempting connection...'' [] h3)
                                \<lparr>authTimeoutRef := False, connectingRef := False\<rparr>))
                   | REDIRECT \<Rightarrow>
                       (if \<not> isMountedRef h3 then (AttemptFailed, False, h3)
                        else (AuthRedirect, False,
                              addLog LInfo ''Redirecting for authentication. Waiting for callback...'' [] h3)))))"

text \<open>The \<open>catch (connectErr)\<close> of \<open>tryConnectWithTransport\<close>.\<close>

definition connect_catch :: "transport_type \<Rightarrow> attempt_env \<Rightarrow> rejection \<Rightarrow> hook \<Rightarrow> attempt_result \<times> bool \<times> hook" where
  "connect_catch t e err h =
     (let h1 = addLog LDebug (''Client connect error via '' @ upper t @ '':'') [''{}''] h;
          errorMessage = err_message err
      in if t = Http \<and> (is404 errorMessage \<or> is405 errorMessage \<or> isLikelyCors errorMessage) then
           (Fallback, False,
            addLog LWarn (''HTTP transport failed ('' @
                          (if isLikelyCors errorMessage then ''CORS''
                           else if is404 errorMessage then ''404'' else ''405'') @
                          ''). Will attempt fallback to SSE.'') [] h1)
         else if is_unauthorized err then auth_flow t e h1
         else if t = Http then
           (Fallback, False,
            addLog LWarn (''HTTP transport failed: '' @ errorMessage @ ''. Will attempt fallback to SSE.'') [] h1)
         else
           (AttemptFailed, False,
            failConnection (''Failed to connect via '' @ upper t @ '': '' @ errorMessage) True h1))"

text \<open>
  The three catalog responses, each stored with a log line, or replaced by the empty list
  with a warning.
\<close>

definition loaded_line :: "string list \<Rightarrow> string \<Rightarrow> string" where
  "loaded_line entries what = ''Loaded '' @ to_decimal (int (length entries)) @ '' '' @ what @ ''.''"

text \<open>The success path, after \<open>client.connect\<close> has resolved.\<close>

definition store_catalogs :: "attempt_env \<Rightarrow> hook \<Rightarrow> hook" where
  "store_catalogs e h3 =
     (let h4 = (case tools_response e of
                  Inr ts \<Rightarrow> addLog LInfo (loaded_line ts ''tools'') [] (h3\<lparr>tools := ts\<rparr>)
                | Inl reason \<Rightarrow> (addLog LWarn (''Failed to load tools: '' @ reason) [] h3)\<lparr>tools := []\<rparr>);
          h5 = (case resources_response e of
                  Inr rs \<Rightarrow> addLog LInfo (loaded_line rs ''resources'') [] (h4\<lparr>resources := rs\<rparr>)
                | Inl reason \<Rightarrow>
                    (addLog LWarn (''Failed to load resources: '' @ reason) [] h4)\<lparr>resources := []\<rparr>)
      in case prompts_response e of
           Inr ps \<Rightarrow> addLog LInfo (loaded_line ps ''prompts'') [] (h5\<lparr>prompts := ps\<rparr>)
         | Inl reason \<Rightarrow> (addLog LWarn (''Failed to load prompts: '' @ reason) [] h5)\<lparr>prompts := []\<rparr>)"

definition load_catalog :: "transport_type \<Rightarrow> attempt_env \<Rightarrow> hook \<Rightarrow> attempt_result \<times> bool \<times> hook" where
  "load_catalog t e h =
     (let h1 = addLog LInfo (''Client connected via '' @ upper t @
                             ''. Loading tools, resources, and prompts...'') [] h;
          h2 = h1\<lparr>successfulTransportRef := Some t, state := Loading\<rparr>
      in if \<not> clientRef h2 then connect_catch t e (null_client_error ''request'') h2
         else
           (let h3 = await (load_tick e)
                       (h2\<lparr>requested := requested h2 @ [''tools/list'', ''resources/list'', ''prompts/list'']\<rparr>)
            in if isMountedRef h3 then
                 (Success, False, (store_catalogs e h3)\<lparr>state := Ready, connectAttemptRef := 0\<rparr>)
               else (AttemptFailed, False, h3)))"

text \<open>
  \<open>tryConnectWithTransport(transportType)\<close>. The handlers it installs on the transport
  (\<open>onmessage\<close>, \<open>onerror\<close>, \<open>onclose\<close>) run on events of the transport, which are not among the
  events of this model.
\<close>

definition enter_attempt :: "transport_type \<Rightarrow> hook \<Rightarrow> hook" where
  "enter_attempt t h =
     (let h1 = addLog LInfo (''Attempting connection with '' @ upper t @ '' transport...'') [] h in
      if stateRef h1 \<noteq> Authenticating then h1\<lparr>state := Connecting\<rparr> else h1)"

text \<open>
  \<open>await transportRef.current.close().catch(...)\<close> and \<open>transportRef.current = null\<close>, when
  there is a previous transport.
\<close>

definition close_previous :: "attempt_env \<Rightarrow> bool \<Rightarrow> hook \<Rightarrow> hook" where
  "close_previous e pending h =
     (case transportRef h of
        None \<Rightarrow> h
      | Some previous \<Rightarrow>
          (let h' = await (close_tick e) (resume_outer pending h);
               h'' = (case close_error e of
                        None \<Rightarrow> h'
                      | Some m \<Rightarrow> addLog LWarn (''Error closing previous transport: '' @ m) [] h')
           in h''\<lparr>transportRef := None\<rparr>))"

text \<open>The transport is constructed and bound, and \<open>client.connect\<close> is about to be called.\<close>

definition construct_transport :: "transport_type \<Rightarrow> hook \<Rightarrow> hook" where
  "construct_transport t h =
     addLog LInfo (''Connecting client via '' @ upper t @ ''...'') []
       (addLog LDebug (upper t @ '' transport created.'') []
          (h\<lparr>transportRef := Some t, created := created h @ [t]\<rparr>))"

definition tryConnectWithTransport ::
  "config \<Rightarrow> transport_type \<Rightarrow> attempt_env \<Rightarrow> bool \<Rightarrow> hook \<Rightarrow> attempt_result \<times> bool \<times> hook" where
  "tryConnectWithTransport cfg t e pending h =
     (let h2 = enter_attempt t h
      in if authProviderRef h2 = None then fail_create t ''Auth Provider must be initialized'' pending h2
         else if \<not> clientRef h2 then fail_create t ''Client must be initialized'' pending h2
         else
           (let pending2 = (if transportRef h2 = None then pending else False);
                h3 = close_previous e pending h2
            in case url_error cfg of
                 Some m \<Rightarrow> fail_create t m pending2 h3
               | None \<Rightarrow>
                   (let h5 = construct_transport t h3
                    in if \<not> clientRef h5 then connect_catch t e (null_client_error ''connect'') h5
                       else
                         (let h6 = await (connect_tick e) (resume_outer pending2 h5) in
                          case connect_outcome e of
                            Some err \<Rightarrow> connect_catch t e err h6
                          | None \<Rightarrow> load_catalog t e h6))))"

text \<open>
  The hook at the moment \<open>client.connect\<close> settles, in an attempt that got as far as
  calling it.
\<close>

definition before_connect :: "transport_type \<Rightarrow> attempt_env \<Rightarrow> bool \<Rightarrow> hook \<Rightarrow> hook" where
  "before_connect t e p h =
     await (connect_tick e)
       (resume_outer (if transportRef h = None then p else False)
          (construct_transport t (close_previous e p (enter_attempt t h))))"

text \<open>
  One call of \<open>connect()\<close>, up to its end or to the point where an attempt has called
  \<open>connect()\<close> again (\<open>Restarted\<close>: the rest of this call is then the \<open>pending\<close> of the next).
\<close>

datatype cycle_end = NoOp | Finished attempt_result | Restarted

record cycle_env =
  http_env :: attempt_env
  sse_env :: attempt_env

definition final_status :: "attempt_result \<Rightarrow> attempt_result" where
  "final_status r = (if r = Fallback then AttemptFailed else r)"

definition connect_once :: "config \<Rightarrow> cycle_env \<Rightarrow> bool \<Rightarrow> hook \<Rightarrow> cycle_end \<times> hook" where
  "connect_once cfg c pending h =
     (if connectingRef h then
        (NoOp, resume_outer pending (addLog LDebug ''Connection attempt already in progress.'' [] h))
      else if \<not> isMountedRef h then
        (NoOp, resume_outer pending (addLog LDebug ''Connect called after unmount, aborting.'' [] h))
      else
        (case tryConnectWithTransport cfg Http (http_env c) pending (connect_init cfg h) of
           (httpResult, restarted, h1) \<Rightarrow>
             if restarted then (Restarted, h1)
             else if httpResult = Fallback \<and> isMountedRef h1 \<and> stateRef h1 \<noteq> Authenticating then
               (case tryConnectWithTransport cfg Sse (sse_env c) False h1 of
                  (sseResult, restarted2, h2) \<Rightarrow>
                    if restarted2 then (Restarted, h2)
                    else (Finished (final_status sseResult), finish sseResult h2))
             else (Finished (final_status httpResult), finish httpResult h1)))"

text \<open>
  \<open>connect()\<close> with the calls it makes to itself. The list scripts what the successive
  calls meet, one element for each; \<open>None\<close> says that the script ended while a call of
  \<open>connect()\<close> was still to run.
\<close>

fun connect :: "config \<Rightarrow> cycle_env list \<Rightarrow> bool \<Rightarrow> hook \<Rightarrow> hook option" where
  "connect cfg [] pending h = None"
| "connect cfg (c # cs) pending h =
     (case connect_once cfg c pending h of
        (Restarted, h') \<Rightarrow> connect cfg cs True h'
      | (NoOp, h') \<Rightarrow> Some h'
      | (Finished r, h') \<Rightarrow> Some h')"

subsection \<open>Request operations\<close>

text \<open>
  What a request operation meets: the response (\<open>None\<close>: the request resolves, with the
  result's JSON text \<open>req_result\<close> holding \<open>req_size\<close> entries), and, for the
  re-authorization of \<open>callTool\<close>, the SDK's \<open>auth\<close>.
\<close>

record request_env =
  req_error :: "rejection option"
  req_result :: string
  req_size :: nat
  req_tick :: tick
  reauth_run :: auth_script
  reauth_tick :: tick

text \<open>A promise settles: it resolves (\<open>None\<close> is \<open>undefined\<close>) or rejects with an error.\<close>

datatype settled = Resolved "string option" | Rejected string

text \<open>
  The error of an operation called when not ready. Its text reads the constant \<open>state\<close> of
  the render the callback was made in (\<open>rendered\<close>), while the guard reads
  \<open>stateRef.current\<close>.
\<close>

definition not_ready_message :: "conn_state \<Rightarrow> string \<Rightarrow> string" where
  "not_ready_message rendered operation =
     ''MCP client is not ready (current state: '' @ state_name rendered @ ''). Cannot '' @ operation @ ''.''"

text \<open>
  The re-authorization inside \<open>callTool\<close>: whether the function returned early
  (\<open>return\<close> after an unmount), whether \<open>connect()\<close> was called, and the hook.
\<close>

definition reauth_failed :: "string \<Rightarrow> hook \<Rightarrow> bool \<times> bool \<times> hook" where
  "reauth_failed msg h =
     (if \<not> isMountedRef h then (True, False, h)
      else (False, False, failConnection (''Re-authentication failed: '' @ msg) True (h\<lparr>authTimeoutRef := False\<rparr>)))"

definition reauthorize :: "request_env \<Rightarrow> hook \<Rightarrow> bool \<times> bool \<times> hook" where
  "reauthorize e h =
     (let h1 = addLog LWarn ''Tool call unauthorized, attempting re-authentication...'' [] h;
          h2 = h1\<lparr>state := Authenticating, authTimeoutRef := True\<rparr>
      in case authProviderRef h2 of
           None \<Rightarrow> reauth_failed ''Auth Provider not available for tool re-auth'' h2
         | Some p \<Rightarrow>
             (case auth p (reauth_run e) (localStorage h2) of
                (authResult, st) \<Rightarrow>
                  (let h3 = await (reauth_tick e) (h2\<lparr>localStorage := st\<rparr>) in
                   case authResult of
                     AuthThrows msg \<Rightarrow> reauth_failed msg h3
                   | AUTHORIZED \<Rightarrow>
                       (if \<not> isMountedRef h3 then (True, False, h3)
                        else (False, True,
                              (addLog LInfo ''Re-authentication successful. Retrying tool call is recommended, or reconnecting.'' [] h3)
                                \<lparr>authTimeoutRef := False, connectingRef := False\<rparr>))
                   | REDIRECT \<Rightarrow>
                       (if \<not> isMountedRef h3 then (True, False, h3)
                        else (False, False,
                              addLog LInfo ''Redirecting for re-authentication for tool call.'' [] h3)))))"

text \<open>
  \<open>callTool(name, args)\<close>: how the promise settles, whether \<open>connect()\<close> was called, and the
  hook. \<open>args\<close> is the JSON text of the arguments.
\<close>

definition callTool ::
  "conn_state \<Rightarrow> string \<Rightarrow> string \<Rightarrow> request_env \<Rightarrow> hook \<Rightarrow> settled \<times> bool \<times> hook" where
  "callTool rendered name args e h =
     (if stateRef h \<noteq> Ready \<or> \<not> clientRef h then
        (Rejected (not_ready_message rendered (''call tool '' @ quoted name)), False, h)
      else
        (let h1 = addLog LInfo (''Calling tool: '' @ name) [args] h;
             h2 = await (req_tick e) (h1\<lparr>requested := requested h1 @ [''tools/call'']\<rparr>)
         in case req_error e of
              None \<Rightarrow>
                (Resolved (Some (req_result e)), False,
                 addLog LInfo (''Tool '' @ quoted name @ '' call successful:'') [req_result e] h2)
            | Some err \<Rightarrow>
                (let h3 = addLog LError (''Error calling tool '' @ quoted name @ '': '' @ err_message err)
                            [''{}''] h2
                 in if is_unauthorized err then
                      (case reauthorize e h3 of
                         (returned, reconnect, h4) \<Rightarrow>
                           if returned then (Resolved None, reconnect, h4)
                           else if stateRef h4 \<noteq> Authenticating then (Rejected (err_message err), reconnect, h4)
                           else (Resolved None, reconnect, h4))
                    else if stateRef h3 \<noteq> Authenticating then (Rejected (err_message err), False, h3)
                    else (Resolved None, False, h3))))"

text \<open>
  The four other operations share one shape: the guard, a log line, the request, and on a
  rejection a log line and the error thrown again.
\<close>

definition request_operation ::
  "conn_state \<Rightarrow> string \<Rightarrow> string \<Rightarrow> string \<Rightarrow> string \<Rightarrow> string \<Rightarrow> request_env \<Rightarrow> hook \<Rightarrow> settled \<times> hook" where
  "request_operation rendered operation method starting done failing e h =
     (if stateRef h \<noteq> Ready \<or> \<not> clientRef h then
        (Rejected (not_ready_message rendered operation), h)
      else
        (let h1 = addLog LInfo starting [] h;
             h2 = await (req_tick e) (h1\<lparr>requested := requested h1 @ [method]\<rparr>)
         in case req_error e of
              None \<Rightarrow> (Resolved (Some (req_result e)), addLog LInfo done [] h2)
            | Some err \<Rightarrow>
                (Rejected (err_message err),
                 addLog LError (failing @ '': '' @ err_message err) [''{}''] h2)))"

definition with_cursor :: "string option \<Rightarrow> string" where
  "with_cursor cursor = (if truthy cursor then '' with cursor: '' @ or_else cursor [] else [])"

definition listResources :: "conn_state \<Rightarrow> string option \<Rightarrow> request_env \<Rightarrow> hook \<Rightarrow> settled \<times> hook" where
  "listResources rendered cursor e h =
     request_operation rendered ''list resources'' ''resources/list''
       (''Listing resources'' @ with_cursor cursor)
       (''Listed '' @ to_decimal (int (req_size e)) @ '' resources.'')
       ''Error listing resources'' e h"

definition readResource :: "conn_state \<Rightarrow> string \<Rightarrow> request_env \<Rightarrow> hook \<Rightarrow> settled \<times> hook" where
  "readResource rendered uri e h =
     request_operation rendered (''read resource '' @ quoted uri) ''resources/read''
       (''Reading resource: '' @ uri)
       (''Resource '' @ quoted uri @ '' read successfully.'')
       (''Error reading resource '' @ quoted uri) e h"

definition listPrompts :: "conn_state \<Rightarrow> string option \<Rightarrow> request_env \<Rightarrow> hook \<Rightarrow> settled \<times> hook" where
  "listPrompts rendered cursor e h =
     request_operation rendered ''list prompts'' ''prompts/list''
       (''Listing prompts'' @ with_cursor cursor)
       (''Listed '' @ to_decimal (int (req_size e)) @ '' prompts.'')
       ''Error listing prompts'' e h"

definition getPrompt :: "conn_state \<Rightarrow> string \<Rightarrow> request_env \<Rightarrow> hook \<Rightarrow> settled \<times> hook" where
  "getPrompt rendered name e h =
     request_operation rendered (''get prompt '' @ quoted name) ''prompts/get''
       (''Getting prompt: '' @ name)
       (''Prompt '' @ quoted name @ '' retrieved successfully.'')
       (''Error getting prompt '' @ quoted name) e h"

subsection \<open>Surroundings used in the examples\<close>

text \<open>
  A suspension in which React commits the pending render and the component stays mounted;
  one in which the component is unmounted; and one in which nothing else runs.
\<close>

definition calm :: tick where
  "calm = \<lparr>commit = True, unmount = False, elapsed = 1\<rparr>"

definition unmounting :: tick where
  "unmounting = \<lparr>commit = True, unmount = True, elapsed = 1\<rparr>"

definition still :: tick where
  "still = \<lparr>commit = False, unmount = False, elapsed = 0\<rparr>"

definition example_config :: config where
  "example_config =
     \<lparr> url = ''https://mcp.example/mcp'', url_error = None, window_origin = ''https://app.example'',
       opt_prefix = None, opt_name = None, opt_uri = None, opt_callback = None \<rparr>"

text \<open>A run of \<open>auth\<close> that calls no provider method and returns the given result.\<close>

definition auth_returns :: "auth_result \<Rightarrow> auth_script" where
  "auth_returns r = \<lparr>sdk_calls = [], sdk_result = r\<rparr>"

text \<open>
  A server that answers: \<open>client.connect\<close> resolves and the three catalogs hold one entry
  each. A server whose \<open>client.connect\<close> rejects with a message, with \<open>auth\<close> returning the
  given result if it is asked; \<open>during\<close> is what else happens while the code waits.
\<close>

definition answering :: attempt_env where
  "answering =
     \<lparr> close_error = None, close_tick = calm, connect_outcome = None, connect_tick = calm,
       tools_response = Inr [''tool''], resources_response = Inr [''resource''],
       prompts_response = Inr [''prompt''], load_tick = calm,
       auth_run = auth_returns REDIRECT, auth_tick = calm \<rparr>"

definition rejecting :: "string \<Rightarrow> auth_result \<Rightarrow> tick \<Rightarrow> attempt_env" where
  "rejecting msg r during =
     \<lparr> close_error = None, close_tick = during,
       connect_outcome = Some \<lparr>err_message = msg, err_unauthorized = False\<rparr>, connect_tick = during,
       tools_response = Inr [], resources_response = Inr [], prompts_response = Inr [],
       load_tick = during, auth_run = auth_returns r, auth_tick = during \<rparr>"

text \<open>A request that is rejected with a message, with \<open>auth\<close> returning the given result.\<close>

definition rejected_request :: "string \<Rightarrow> auth_result \<Rightarrow> request_env" where
  "rejected_request msg r =
     \<lparr> req_error = Some \<lparr>err_message = msg, err_unauthorized = False\<rparr>, req_result = [],
       req_size = 0, req_tick = calm, reauth_run = auth_returns r, reauth_tick = calm \<rparr>"

text \<open>The hook of a session that is ready over the primary transport.\<close>

definition ready_hook :: hook where
  "ready_hook =
     initial_hook
       \<lparr> state := Ready, stateRef := Ready, clientRef := True, transportRef := Some Http,
         authProviderRef := Some (new_provider example_config), successfulTransportRef := Some Http,
         created := [Http] \<rparr>"


subsection \<open>Classification of a failed attempt\<close>

text \<open>
  The spec's classes of a rejected \<open>client.connect\<close>, as the \<open>catch\<close> block decides them:
  soft-retryable is decided first and only on the primary transport, unauthorized next.
\<close>

definition soft_retryable :: "rejection \<Rightarrow> bool" where
  "soft_retryable err =
     (is404 (err_message err) \<or> is405 (err_message err) \<or> isLikelyCors (err_message err))"

definition classified_unauthorized :: "transport_type \<Rightarrow> rejection \<Rightarrow> bool" where
  "classified_unauthorized t err =
     (if t = Http \<and> soft_retryable err then False else is_unauthorized err)"

text \<open>The provider \<open>connect\<close> works with: the one at hand, or the one it constructs.\<close>

definition provider_of :: "config \<Rightarrow> hook \<Rightarrow> provider" where
  "provider_of cfg h = (case authProviderRef h of None \<Rightarrow> new_provider cfg | Some p \<Rightarrow> p)"

section \<open>Facts about localStorage\<close>

lemma getItem_removeItem_same: "getItem (removeItem st k) k = None"
  by (induction st) (auto simp: getItem_def removeItem_def)

lemma getItem_removeItem_other: "k' \<noteq> k \<Longrightarrow> getItem (removeItem st k) k' = getItem st k'"
  by (induction st) (auto simp: getItem_def removeItem_def)

lemma getItem_setItem_same: "getItem (setItem st k v) k = Some v"
  by (induction st) (auto simp: getItem_def)

lemma getItem_setItem_other: "k' \<noteq> k \<Longrightarrow> getItem (setItem st k v) k' = getItem st k'"
  by (induction st) (auto simp: getItem_def)

lemma getItem_distinct: "distinct (map fst st) \<Longrightarrow> kv \<in> set st \<Longrightarrow> getItem st (fst kv) = Some (snd kv)"
  by (cases kv) (simp add: getItem_def)

lemma getItem_filter_keep:
  assumes "distinct (map fst st)" "getItem st k = Some v" "P (k, v)"
  shows "getItem (filter P st) k = Some v"
  using assms by (induction st) (auto simp: getItem_def rev_image_eqI split: if_splits)

lemma getItem_filter_drop:
  assumes "distinct (map fst st)" "getItem st k = Some v" "\<not> P (k, v)"
  shows "getItem (filter P st) k = None"
  using assms
proof (induction st)
  case Nil
  then show ?case by (simp add: getItem_def)
next
  case (Cons kv st)
  show ?case
  proof (cases "fst kv = k")
    case True
    with Cons.prems have v: "snd kv = v" by (cases kv) (simp add: getItem_def)
    from True Cons.prems(1) have "k \<notin> fst ` set st" by auto
    then have "map_of (filter P st) k = None" by (force simp: map_of_eq_None_iff)
    with True v Cons.prems(3) show ?thesis by (cases kv) (simp add: getItem_def)
  next
    case False
    with Cons show ?thesis by (cases kv) (auto simp: getItem_def)
  qed
qed

lemma getItem_filter_none: "getItem st k = None \<Longrightarrow> getItem (filter P st) k = None"
  by (induction st) (auto simp: getItem_def split: if_splits)

lemma getItem_filter_key: "(\<And>v. \<not> P (k, v)) \<Longrightarrow> getItem (filter P st) k = None"
  by (induction st) (auto simp: getItem_def)

lemma foldl_removeItem: "foldl removeItem st ks = filter (\<lambda>kv. fst kv \<notin> set ks) st"
proof (induction ks arbitrary: st)
  case Nil
  then show ?case by simp
next
  case (Cons k ks)
  have "foldl removeItem st (k # ks) = filter (\<lambda>kv. fst kv \<notin> set ks) (removeItem st k)"
    by (simp add: Cons.IH)
  also have "\<dots> = filter (\<lambda>kv. fst kv \<notin> set (k # ks)) st"
    by (simp add: removeItem_def conj_commute)
  finally show ?case .
qed

section \<open>Facts about keys and hashes\<close>

lemma digit_char_hex: "d < 16 \<Longrightarrow> digit_char d \<in> set ''0123456789abcdef''"
  unfolding digit_char_def by (rule nth_mem) simp

lemma to_radix_16_hex: "set (to_radix 16 n) \<subseteq> set ''0123456789abcdef''"
proof (induction "16::nat" n rule: to_radix.induct)
  case (1 n)
  show ?case
  proof (cases "n < 16")
    case True
    then show ?thesis using digit_char_hex [of n] by (subst to_radix.simps) simp
  next
    case False
    have "n mod 16 < 16" by simp
    from digit_char_hex [OF this] 1 False show ?thesis
      by (subst to_radix.simps) simp
  qed
qed

lemma hashString_no_underscore: "CHR ''_'' \<notin> set (hashString s)"
proof
  assume "CHR ''_'' \<in> set (hashString s)"
  then have "CHR ''_'' \<in> set (to_radix 16 (nat \<bar>sint (foldl hash_step 0 s)\<bar>))"
    by (simp only: hashString_def to_hex_def)
  with to_radix_16_hex have "CHR ''_'' \<in> set ''0123456789abcdef''" by blast
  then show False by simp
qed

lemma segment_eq:
  assumes "c \<notin> set a" "c \<notin> set b" "take (length (a @ [c])) (b @ c # s) = a @ [c]"
  shows "a = b"
  using assms
proof (induction a arbitrary: b)
  case Nil
  then show ?case by (cases b) auto
next
  case (Cons x a)
  then show ?case by (cases b) auto
qed

lemma startsWith_append: "startsWith (p @ s) (p @ q) = startsWith s q"
  by (simp add: startsWith_def)

lemma credential_key_foreign:
  assumes "CHR ''_'' \<notin> set ha" "CHR ''_'' \<notin> set hb" "ha \<noteq> hb"
  shows "\<not> startsWith (pre @ ''_'' @ hb @ ''_'' @ suffix) (pre @ ''_'' @ ha @ ''_'')"
proof
  assume "startsWith (pre @ ''_'' @ hb @ ''_'' @ suffix) (pre @ ''_'' @ ha @ ''_'')"
  then have "startsWith (hb @ ''_'' @ suffix) (ha @ ''_'')"
    using startsWith_append [of "pre @ ''_''" "hb @ ''_'' @ suffix" "ha @ ''_''"] by simp
  then have "take (length (ha @ [CHR ''_''])) (hb @ CHR ''_'' # suffix) = ha @ [CHR ''_'']"
    by (simp add: startsWith_def)
  from segment_eq [OF assms(1,2) this] assms(3) show False by simp
qed

lemma credential_key_own: "startsWith (getKey p suffix) (prefixPattern p)"
  by (simp add: startsWith_def getKey_def prefixPattern_def)

lemma state_key_own: "startsWith (stateKey p token) (statePattern p)"
  by (simp add: startsWith_def stateKey_def statePattern_def)

lemma credential_key_not_state:
  assumes "storageKeyPrefix p = storageKeyPrefix q"
  shows "\<not> startsWith (getKey p suffix) (statePattern q)"
  using startsWith_append [of "storageKeyPrefix q" "''_'' @ serverUrlHash p @ ''_'' @ suffix" "'':state_''"]
  by (simp add: getKey_def statePattern_def assms startsWith_def)

lemma state_key_not_credential:
  assumes "storageKeyPrefix p = storageKeyPrefix q"
  shows "\<not> startsWith (stateKey p token) (prefixPattern q)"
  using startsWith_append [of "storageKeyPrefix q" "'':state_'' @ token" "''_'' @ serverUrlHash q @ ''_''"]
  by (simp add: stateKey_def prefixPattern_def assms startsWith_def)

lemma credential_key_other:
  assumes "storageKeyPrefix p = storageKeyPrefix q"
    and "CHR ''_'' \<notin> set (serverUrlHash p)" "CHR ''_'' \<notin> set (serverUrlHash q)"
    and "serverUrlHash q \<noteq> serverUrlHash p"
  shows "\<not> startsWith (getKey p suffix) (prefixPattern q)"
  using credential_key_foreign [OF assms(3,2,4), of "storageKeyPrefix q" suffix]
  by (simp add: getKey_def prefixPattern_def assms(1))

lemma state_key_not_credential_key: "stateKey p token \<noteq> getKey p suffix"
  by (simp add: stateKey_def getKey_def)

section \<open>clearStorage removes a namespace\<close>

lemma collect_key_in_namespace:
  assumes "getItem st key = Some v"
  shows "collect_key p st key = (if in_namespace p key v then [key] else [])"
  using assms
  by (cases v)
    (auto simp: collect_key_def in_namespace_def Let_def present_def startsWith_def
       prefixPattern_def statePattern_def)

lemma collected_keys:
  assumes "distinct (map fst st)"
  shows "concat (map (collect_key p st) (map fst st)) =
         map fst (filter (\<lambda>kv. in_namespace p (fst kv) (snd kv)) st)"
proof -
  have "set xs \<subseteq> set st \<Longrightarrow> concat (map (collect_key p st) (map fst xs)) =
         map fst (filter (\<lambda>kv. in_namespace p (fst kv) (snd kv)) xs)" for xs
  proof (induction xs)
    case Nil
    then show ?case by simp
  next
    case (Cons kv xs)
    then have "getItem st (fst kv) = Some (snd kv)" using getItem_distinct [OF assms] by simp
    from collect_key_in_namespace [OF this] Cons show ?case by simp
  qed
  then show ?thesis by simp
qed

lemma unique_distinct: "distinct ks \<Longrightarrow> unique ks = ks"
  by (simp add: unique_def distinct_remdups_id)

lemma clearStorage_filter:
  assumes "distinct (map fst st)"
  shows "clearStorage p st =
     (length (filter (\<lambda>kv. in_namespace p (fst kv) (snd kv)) st),
      filter (\<lambda>kv. \<not> in_namespace p (fst kv) (snd kv)) st)"
proof -
  let ?own = "filter (\<lambda>kv. in_namespace p (fst kv) (snd kv)) st"
  have d: "distinct (map fst ?own)" using assms by (simp add: distinct_map_filter)
  have keys: "unique (concat (map (collect_key p st) (map fst st))) = map fst ?own"
    unfolding collected_keys [OF assms] by (rule unique_distinct [OF d])
  have rest: "filter (\<lambda>kv. fst kv \<notin> set (map fst ?own)) st =
              filter (\<lambda>kv. \<not> in_namespace p (fst kv) (snd kv)) st"
  proof (rule filter_cong [OF refl])
    fix kv assume m: "kv \<in> set st"
    show "(fst kv \<notin> set (map fst ?own)) = (\<not> in_namespace p (fst kv) (snd kv))"
    proof
      assume "fst kv \<notin> set (map fst ?own)"
      with m show "\<not> in_namespace p (fst kv) (snd kv)" by force
    next
      assume n: "\<not> in_namespace p (fst kv) (snd kv)"
      show "fst kv \<notin> set (map fst ?own)"
      proof
        assume "fst kv \<in> set (map fst ?own)"
        then obtain kv' where kv': "kv' \<in> set st" "in_namespace p (fst kv') (snd kv')" "fst kv' = fst kv"
          by auto
        from assms m kv'(1,3) have "kv' = kv"
          by (metis eq_key_imp_eq_value prod.collapse)
        with kv'(2) n show False by simp
      qed
    qed
  qed
  have "clearStorage p st = (length (map fst ?own), filter (\<lambda>kv. fst kv \<notin> set (map fst ?own)) st)"
    unfolding clearStorage_def Let_def keys foldl_removeItem ..
  then show ?thesis unfolding rest by simp
qed

lemma removed_count:
  "length (filter P st) = length st - length (filter (\<lambda>x. \<not> P x) st)"
  using sum_length_filter_compl [of P st] by simp

lemma hashString_a: "hashString ''a'' = ''61''"
  by code_simp

lemma hashString_b: "hashString ''b'' = ''62''"
  by code_simp

text \<open>
  Claim C7. Two server identities \<open>A\<close> and \<open>B\<close> of one application (the same origin and
  options, hence the same key prefix) with different namespace hashes share a storage with
  unique keys. Then \<open>clearStorage\<close> for \<open>A\<close> keeps exactly the entries outside \<open>A\<close>'s
  namespace, in their order, and returns the number of entries it removed; none of \<open>A\<close>'s
  credential keys and none of \<open>A\<close>'s correlation records is left; every credential key of
  \<open>B\<close> reads as before, and so does every correlation record of \<open>B\<close>.
\<close>

theorem clearStorage_isolation:
  assumes "distinct (map fst st)"
    and "A = BrowserOAuthClientProvider origin urlA options"
    and "B = BrowserOAuthClientProvider origin urlB options"
    and "serverUrlHash A \<noteq> serverUrlHash B"
  shows "snd (clearStorage A st) = filter (\<lambda>kv. \<not> in_namespace A (fst kv) (snd kv)) st
       \<and> fst (clearStorage A st) = length st - length (snd (clearStorage A st))
       \<and> (\<forall>suffix. getItem (snd (clearStorage A st)) (getKey A suffix) = None)
       \<and> (\<forall>token r. getItem st (stateKey A token) = Some (StateJson r)
              \<and> st_serverUrlHash r = serverUrlHash A
            \<longrightarrow> getItem (snd (clearStorage A st)) (stateKey A token) = None)
       \<and> (\<forall>suffix. getItem (snd (clearStorage A st)) (getKey B suffix) = getItem st (getKey B suffix))
       \<and> (\<forall>token r. getItem st (stateKey B token) = Some (StateJson r)
              \<and> st_serverUrlHash r = serverUrlHash B
            \<longrightarrow> getItem (snd (clearStorage A st)) (stateKey B token) = Some (StateJson r))"
proof -
  let ?keep = "\<lambda>kv. \<not> in_namespace A (fst kv) (snd kv)"
  have pre: "storageKeyPrefix B = storageKeyPrefix A"
    unfolding assms(2,3) BrowserOAuthClientProvider_def by simp
  have ha: "CHR ''_'' \<notin> set (serverUrlHash A)"
    unfolding assms(2) BrowserOAuthClientProvider_def by (simp add: hashString_no_underscore)
  have hb: "CHR ''_'' \<notin> set (serverUrlHash B)"
    unfolding assms(3) BrowserOAuthClientProvider_def by (simp add: hashString_no_underscore)
  have c: "clearStorage A st = (length (filter (\<lambda>kv. in_namespace A (fst kv) (snd kv)) st), filter ?keep st)"
    by (rule clearStorage_filter [OF assms(1)])
  have k1: "snd (clearStorage A st) = filter ?keep st" by (simp only: c snd_conv)
  have q2: "fst (clearStorage A st) = length st - length (filter ?keep st)"
    unfolding c fst_conv by (rule removed_count)
  have k3: "getItem (filter ?keep st) (getKey A suffix) = None" for suffix
    by (rule getItem_filter_key) (simp add: in_namespace_def credential_key_own)
  have k4: "getItem (filter ?keep st) (stateKey A token) = None"
    if "getItem st (stateKey A token) = Some (StateJson r)"
      and "st_serverUrlHash r = serverUrlHash A" for token r
    by (rule getItem_filter_drop [OF assms(1) that(1)])
      (simp add: in_namespace_def state_key_own that(2))
  have k5: "getItem (filter ?keep st) (getKey B suffix) = getItem st (getKey B suffix)" for suffix
  proof (cases "getItem st (getKey B suffix)")
    case None
    then show ?thesis by (simp only: getItem_filter_none)
  next
    case (Some v)
    have "\<not> in_namespace A (getKey B suffix) v"
      using credential_key_other [OF pre hb ha assms(4), of suffix]
        credential_key_not_state [OF pre, of suffix]
      by (simp add: in_namespace_def)
    then have "?keep (getKey B suffix, v)" by simp
    from getItem_filter_keep [OF assms(1) Some, of ?keep, OF this] Some show ?thesis by simp
  qed
  have k6: "getItem (filter ?keep st) (stateKey B token) = Some (StateJson r)"
    if "getItem st (stateKey B token) = Some (StateJson r)"
      and "st_serverUrlHash r = serverUrlHash B" for token r
  proof -
    have "\<not> in_namespace A (stateKey B token) (StateJson r)"
      using state_key_not_credential [OF pre, of token] assms(4)
      by (simp add: in_namespace_def that(2))
    then have "?keep (stateKey B token, StateJson r)" by simp
    from getItem_filter_keep [OF assms(1) that(1), of ?keep, OF this] show ?thesis .
  qed
  from k4 have q4: "\<forall>token r. getItem st (stateKey A token) = Some (StateJson r)
              \<and> st_serverUrlHash r = serverUrlHash A
            \<longrightarrow> getItem (filter ?keep st) (stateKey A token) = None"
    by blast
  from k6 have q6: "\<forall>token r. getItem st (stateKey B token) = Some (StateJson r)
              \<and> st_serverUrlHash r = serverUrlHash B
            \<longrightarrow> getItem (filter ?keep st) (stateKey B token) = Some (StateJson r)"
    by blast
  from k3 have q3: "\<forall>suffix. getItem (filter ?keep st) (getKey A suffix) = None" by blast
  from k5 have q5: "\<forall>suffix. getItem (filter ?keep st) (getKey B suffix) = getItem st (getKey B suffix)"
    by blast
  show ?thesis unfolding k1
    by (intro conjI refl q2 q3 q4 q5 q6)
qed

theorem clearStorage_isolation_witness:
  "snd (clearStorage
         (BrowserOAuthClientProvider ''https://app.example'' ''a''
            \<lparr>opt_storageKeyPrefix = None, opt_clientName = None, opt_clientUri = None, opt_callbackUrl = None\<rparr>)
         [(''mcp:auth_61_tokens'', ObjectJson ''{}''),
          (''mcp:auth_62_tokens'', ObjectJson ''{}''),
          (''mcp:auth:state_x'', StateJson \<lparr>st_serverUrlHash = ''61'', expiry = 1, providerOptions = None\<rparr>),
          (''mcp:auth:state_y'', StateJson \<lparr>st_serverUrlHash = ''62'', expiry = 1, providerOptions = None\<rparr>)])
     = [(''mcp:auth_62_tokens'', ObjectJson ''{}''),
        (''mcp:auth:state_y'', StateJson \<lparr>st_serverUrlHash = ''62'', expiry = 1, providerOptions = None\<rparr>)]
   \<and> fst (clearStorage
         (BrowserOAuthClientProvider ''https://app.example'' ''a''
            \<lparr>opt_storageKeyPrefix = None, opt_clientName = None, opt_clientUri = None, opt_callbackUrl = None\<rparr>)
         [(''mcp:auth_61_tokens'', ObjectJson ''{}''),
          (''mcp:auth_62_tokens'', ObjectJson ''{}''),
          (''mcp:auth:state_x'', StateJson \<lparr>st_serverUrlHash = ''61'', expiry = 1, providerOptions = None\<rparr>),
          (''mcp:auth:state_y'', StateJson \<lparr>st_serverUrlHash = ''62'', expiry = 1, providerOptions = None\<rparr>)])
     = 2"
proof -
  let ?opts = "\<lparr>opt_storageKeyPrefix = None, opt_clientName = None, opt_clientUri = None, opt_callbackUrl = None\<rparr>"
  let ?A = "BrowserOAuthClientProvider ''https://app.example'' ''a'' ?opts"
  let ?B = "BrowserOAuthClientProvider ''https://app.example'' ''b'' ?opts"
  let ?st = "[(''mcp:auth_61_tokens'', ObjectJson ''{}''),
          (''mcp:auth_62_tokens'', ObjectJson ''{}''),
          (''mcp:auth:state_x'', StateJson \<lparr>st_serverUrlHash = ''61'', expiry = 1, providerOptions = None\<rparr>),
          (''mcp:auth:state_y'', StateJson \<lparr>st_serverUrlHash = ''62'', expiry = 1, providerOptions = None\<rparr>)]"
  have d: "distinct (map fst ?st)" by simp
  have h: "serverUrlHash ?A \<noteq> serverUrlHash ?B"
    by (simp add: BrowserOAuthClientProvider_def hashString_a hashString_b)
  have keep: "filter (\<lambda>kv. \<not> in_namespace ?A (fst kv) (snd kv)) ?st
      = [(''mcp:auth_62_tokens'', ObjectJson ''{}''),
        (''mcp:auth:state_y'', StateJson \<lparr>st_serverUrlHash = ''62'', expiry = 1, providerOptions = None\<rparr>)]"
    by (simp add: in_namespace_def startsWith_def prefixPattern_def statePattern_def
        BrowserOAuthClientProvider_def or_else_def hashString_a)
  from clearStorage_isolation [OF d refl refl h]
  have "snd (clearStorage ?A ?st) = filter (\<lambda>kv. \<not> in_namespace ?A (fst kv) (snd kv)) ?st"
    and "fst (clearStorage ?A ?st) = length ?st - length (snd (clearStorage ?A ?st))"
    by blast+
  then show ?thesis unfolding keep by simp
qed

section \<open>The callback completion handler\<close>

lemma removeItem_absent: "getItem st k = None \<Longrightarrow> removeItem st k = st"
  by (induction st) (auto simp: getItem_def removeItem_def split: if_splits)

lemma callback_try_success:
  assumes "callback_try q env st = Inr st'"
  shows "\<exists>token. q_state q = Some token \<and> token \<noteq> [] \<and> getItem st' (callback_state_key token) = None
           \<and> \<not> truthy (q_error q) \<and> truthy (q_code q)"
  using assms
  by (auto simp: callback_try_def Let_def getItem_removeItem_same stateKey_of_def truthy_def or_else_def
      split: if_splits option.splits entry.splits prod.splits auth_result.splits)

lemma callback_success_storage:
  "cb_error (onMcpAuthorization q env st) = None \<Longrightarrow>
   callback_try q env st = Inr (cb_storage (onMcpAuthorization q env st))"
  by (auto simp: onMcpAuthorization_def split: sum.splits prod.splits)

lemma callback_unknown_token:
  assumes "q_state q = Some token" "token \<noteq> []" "\<not> truthy (q_error q)" "truthy (q_code q)"
    and "getItem st (callback_state_key token) = None"
  shows "onMcpAuthorization q env st =
           \<lparr> cb_storage = st,
             cb_posted = (if cb_opener env
                          then Some (AuthCallback False (Some (no_matching_state_message token)))
                          else None),
             cb_error = Some (no_matching_state_message token),
             cb_window_closed = False,
             cb_location = None \<rparr>"
proof -
  have k: "stateKey_of (q_state q) = Some (callback_state_key token)"
    using assms(1,2) by (simp add: stateKey_of_def truthy_def or_else_def)
  have r: "callback_try q env st = Inl (no_matching_state_message token, None, st)"
    using assms k by (simp add: callback_try_def present_def or_else_def)
  show ?thesis
    by (simp add: onMcpAuthorization_def r k callback_cleanup_def removeItem_absent [OF assms(5)])
qed

text \<open>
  Claim C5. A correlation token is consumed once. When a completion succeeds (the code
  exchange returned \<open>AUTHORIZED\<close>), the record under the token's key is gone from the storage
  it leaves; and a replay of the callback with the same \<open>code\<close> and \<open>state\<close> on that storage,
  whatever the clock, the opener and the SDK would do, ends with the error
  \<open>Invalid or expired state parameter "...". No matching state found in storage.\<close>, signals
  that failure to the opener when there is one, and changes nothing in the storage.
\<close>

theorem correlation_token_single_use:assumes "cb_error (onMcpAuthorization q env st) = None"
  shows "\<exists>token. q_state q = Some token \<and> token \<noteq> []
           \<and> getItem (cb_storage (onMcpAuthorization q env st)) (callback_state_key token) = None
           \<and> cb_error (onMcpAuthorization q env' (cb_storage (onMcpAuthorization q env st)))
               = Some (no_matching_state_message token)
           \<and> cb_posted (onMcpAuthorization q env' (cb_storage (onMcpAuthorization q env st)))
               = (if cb_opener env' then Some (AuthCallback False (Some (no_matching_state_message token)))
                  else None)
           \<and> cb_storage (onMcpAuthorization q env' (cb_storage (onMcpAuthorization q env st)))
               = cb_storage (onMcpAuthorization q env st)"
proof -
  define st' where "st' = cb_storage (onMcpAuthorization q env st)"
  from callback_try_success [OF callback_success_storage [OF assms]]
  obtain token where t: "q_state q = Some token" "token \<noteq> []"
    "getItem st' (callback_state_key token) = None" "\<not> truthy (q_error q)" "truthy (q_code q)"
    unfolding st'_def by blast
  note r = callback_unknown_token [OF t(1,2,4,5,3), of env']
  have "cb_error (onMcpAuthorization q env' st') = Some (no_matching_state_message token)"
    and "cb_posted (onMcpAuthorization q env' st')
               = (if cb_opener env' then Some (AuthCallback False (Some (no_matching_state_message token)))
                  else None)"
    and "cb_storage (onMcpAuthorization q env' st') = st'"
    unfolding r by simp_all
  with t(1,2,3) show ?thesis unfolding st'_def by blast
qed

theorem correlation_token_single_use_witness:
  "cb_error (onMcpAuthorization
       \<lparr>q_code = Some ''c'', q_state = Some ''t'', q_error = None, q_error_description = None\<rparr>
       \<lparr>cb_now = 5, cb_origin = ''https://app.example'', cb_opener = True,
         cb_auth = \<lparr>sdk_calls = [CallCodeVerifier, CallSaveTokens ''{}''], sdk_result = AUTHORIZED\<rparr>\<rparr>
       [(''mcp:auth:state_t'',
         StateJson \<lparr>st_serverUrlHash = ''61'', expiry = 600000,
           providerOptions = Some \<lparr>so_serverUrl = ''a'', so_storageKeyPrefix = ''mcp:auth'',
             so_clientName = ''n'', so_clientUri = ''u'', so_callbackUrl = ''cb''\<rparr>\<rparr>),
        (''mcp:auth_61_code_verifier'', Text ''v'')]) = None
   \<and> cb_error (onMcpAuthorization
       \<lparr>q_code = Some ''c'', q_state = Some ''t'', q_error = None, q_error_description = None\<rparr>
       \<lparr>cb_now = 6, cb_origin = ''https://app.example'', cb_opener = True,
         cb_auth = \<lparr>sdk_calls = [CallCodeVerifier, CallSaveTokens ''{}''], sdk_result = AUTHORIZED\<rparr>\<rparr>
       (cb_storage (onMcpAuthorization
       \<lparr>q_code = Some ''c'', q_state = Some ''t'', q_error = None, q_error_description = None\<rparr>
       \<lparr>cb_now = 5, cb_origin = ''https://app.example'', cb_opener = True,
         cb_auth = \<lparr>sdk_calls = [CallCodeVerifier, CallSaveTokens ''{}''], sdk_result = AUTHORIZED\<rparr>\<rparr>
       [(''mcp:auth:state_t'',
         StateJson \<lparr>st_serverUrlHash = ''61'', expiry = 600000,
           providerOptions = Some \<lparr>so_serverUrl = ''a'', so_storageKeyPrefix = ''mcp:auth'',
             so_clientName = ''n'', so_clientUri = ''u'', so_callbackUrl = ''cb''\<rparr>\<rparr>),
        (''mcp:auth_61_code_verifier'', Text ''v'')])))
     = Some (no_matching_state_message ''t'')"
proof -
  let ?q = "\<lparr>q_code = Some ''c'', q_state = Some ''t'', q_error = None, q_error_description = None\<rparr>"
  let ?env = "\<lparr>cb_now = 5, cb_origin = ''https://app.example'', cb_opener = True,
         cb_auth = \<lparr>sdk_calls = [CallCodeVerifier, CallSaveTokens ''{}''], sdk_result = AUTHORIZED\<rparr>\<rparr>"
  let ?env' = "\<lparr>cb_now = 6, cb_origin = ''https://app.example'', cb_opener = True,
         cb_auth = \<lparr>sdk_calls = [CallCodeVerifier, CallSaveTokens ''{}''], sdk_result = AUTHORIZED\<rparr>\<rparr>"
  let ?st = "[(''mcp:auth:state_t'',
         StateJson \<lparr>st_serverUrlHash = ''61'', expiry = 600000,
           providerOptions = Some \<lparr>so_serverUrl = ''a'', so_storageKeyPrefix = ''mcp:auth'',
             so_clientName = ''n'', so_clientUri = ''u'', so_callbackUrl = ''cb''\<rparr>\<rparr>),
        (''mcp:auth_61_code_verifier'', Text ''v'')]"
  have first: "cb_error (onMcpAuthorization ?q ?env ?st) = None"
    by (simp add: onMcpAuthorization_def callback_try_def stateKey_of_def callback_state_key_def
        truthy_def or_else_def getItem_def present_def BrowserOAuthClientProvider_def auth_def
        codeVerifier_def saveTokens_def getKey_def removeItem_def hashString_a Let_def)
  from correlation_token_single_use [OF first, of ?env']
  obtain token where "q_state ?q = Some token"
    and "cb_error (onMcpAuthorization ?q ?env' (cb_storage (onMcpAuthorization ?q ?env ?st)))
               = Some (no_matching_state_message token)"
    by blast
  then have "cb_error (onMcpAuthorization ?q ?env' (cb_storage (onMcpAuthorization ?q ?env ?st)))
               = Some (no_matching_state_message ''t'')" by simp
  with first show ?thesis by (rule conjI)
qed

lemma stateKey_default: "storageKeyPrefix p = ''mcp:auth'' \<Longrightarrow> stateKey p token = callback_state_key token"
  by (simp add: stateKey_def callback_state_key_def)

lemma redirect_persists:
  "getItem (redirectToAuthorization p u token now st) (stateKey p token) = Some (StateJson (stateData p now))"
  by (simp add: redirectToAuthorization_def Let_def getItem_setItem_other getItem_setItem_same
      state_key_not_credential_key)

lemma callback_expired:
  assumes "truthy (q_code q)" "\<not> truthy (q_error q)" "q_state q = Some token" "token \<noteq> []"
    and "getItem st (callback_state_key token) = Some (StateJson r)"
    and "expiry r < cb_now env"
  shows "onMcpAuthorization q env st =
           \<lparr> cb_storage = removeItem (removeItem st (callback_state_key token)) (callback_state_key token),
             cb_posted = (if cb_opener env then Some (AuthCallback False (Some expired_message)) else None),
             cb_error = Some expired_message,
             cb_window_closed = False,
             cb_location = None \<rparr>"
proof -
  have k: "stateKey_of (q_state q) = Some (callback_state_key token)"
    using assms(3,4) by (simp add: stateKey_of_def truthy_def or_else_def)
  have r: "callback_try q env st = Inl (expired_message, None, removeItem st (callback_state_key token))"
    using assms k by (simp add: callback_try_def present_def)
  show ?thesis
    by (simp add: onMcpAuthorization_def r k callback_cleanup_def)
qed

text \<open>
  What holds of the expiry. \<open>redirectToAuthorization\<close> persists the correlation record under
  \<open>{prefix}:state_{token}\<close> with \<open>expiry\<close> ten minutes (600000 ms) after the time of creation,
  for every prefix. The completion handler, given a code and a state and no error parameter,
  rejects a token whose record, under the key the handler reads (\<open>mcp:auth:state_{token}\<close>),
  has its expiry in the past: the error is the expiry error, it is signalled to the opener,
  and the record is removed. End to end, for a provider with the prefix \<open>mcp:auth\<close>: the
  record it wrote is rejected and removed once more than ten minutes have passed.
\<close>

theorem expiry_under_default_prefix:"getItem (redirectToAuthorization p authorizationUrl token written st0) (stateKey p token)
       = Some (StateJson (stateData p written))
   \<and> expiry (stateData p written) = written + 10 * 60 * 1000
   \<and> (truthy (q_code q) \<and> \<not> truthy (q_error q) \<and> q_state q = Some token \<and> token \<noteq> []
        \<and> getItem st (callback_state_key token) = Some (StateJson r) \<and> expiry r < cb_now env
      \<longrightarrow> cb_error (onMcpAuthorization q env st) = Some expired_message
        \<and> cb_posted (onMcpAuthorization q env st)
            = (if cb_opener env then Some (AuthCallback False (Some expired_message)) else None)
        \<and> getItem (cb_storage (onMcpAuthorization q env st)) (callback_state_key token) = None)
   \<and> (storageKeyPrefix p = ''mcp:auth''
        \<and> truthy (q_code q) \<and> \<not> truthy (q_error q) \<and> q_state q = Some token \<and> token \<noteq> []
        \<and> written + 10 * 60 * 1000 < cb_now env
      \<longrightarrow> cb_error (onMcpAuthorization q env
                      (redirectToAuthorization p authorizationUrl token written st0))
            = Some expired_message
        \<and> getItem (cb_storage (onMcpAuthorization q env
                      (redirectToAuthorization p authorizationUrl token written st0)))
             (stateKey p token) = None)"
proof (intro conjI impI)
  show "getItem (redirectToAuthorization p authorizationUrl token written st0) (stateKey p token)
       = Some (StateJson (stateData p written))"
    by (rule redirect_persists)
  show e: "expiry (stateData p written) = written + 10 * 60 * 1000"
    by (simp add: stateData_def)
next
  assume a: "truthy (q_code q) \<and> \<not> truthy (q_error q) \<and> q_state q = Some token \<and> token \<noteq> []
        \<and> getItem st (callback_state_key token) = Some (StateJson r) \<and> expiry r < cb_now env"
  then have h: "truthy (q_code q)" "\<not> truthy (q_error q)" "q_state q = Some token" "token \<noteq> []"
    "getItem st (callback_state_key token) = Some (StateJson r)" "expiry r < cb_now env"
    by simp_all
  note c = callback_expired [OF h]
  show "cb_error (onMcpAuthorization q env st) = Some expired_message"
    and "cb_posted (onMcpAuthorization q env st)
            = (if cb_opener env then Some (AuthCallback False (Some expired_message)) else None)"
    and "getItem (cb_storage (onMcpAuthorization q env st)) (callback_state_key token) = None"
    unfolding c by (simp_all add: getItem_removeItem_same)
next
  let ?st = "redirectToAuthorization p authorizationUrl token written st0"
  assume a: "storageKeyPrefix p = ''mcp:auth''
        \<and> truthy (q_code q) \<and> \<not> truthy (q_error q) \<and> q_state q = Some token \<and> token \<noteq> []
        \<and> written + 10 * 60 * 1000 < cb_now env"
  then have key: "stateKey p token = callback_state_key token" by (simp add: stateKey_default)
  have rec: "getItem ?st (callback_state_key token) = Some (StateJson (stateData p written))"
    using redirect_persists [of p authorizationUrl token written st0] by (simp only: key)
  have old: "expiry (stateData p written) < cb_now env"
    using a by (simp add: stateData_def)
  from a have h: "truthy (q_code q)" "\<not> truthy (q_error q)" "q_state q = Some token" "token \<noteq> []"
    by simp_all
  note c = callback_expired [OF h rec old]
  show "cb_error (onMcpAuthorization q env ?st) = Some expired_message"
    and "getItem (cb_storage (onMcpAuthorization q env ?st)) (stateKey p token) = None"
    unfolding c key by (simp_all add: getItem_removeItem_same)
qed

theorem expiry_under_default_prefix_example:
  "truthy (q_code \<lparr>q_code = Some ''c'', q_state = Some ''t'', q_error = None, q_error_description = None\<rparr>)
   \<and> storageKeyPrefix (BrowserOAuthClientProvider ''https://app.example'' ''a''
         \<lparr>opt_storageKeyPrefix = None, opt_clientName = None, opt_clientUri = None, opt_callbackUrl = None\<rparr>)
       = ''mcp:auth''
   \<and> (0::int) + 10 * 60 * 1000 < 600001
   \<and> cb_error (onMcpAuthorization
         \<lparr>q_code = Some ''c'', q_state = Some ''t'', q_error = None, q_error_description = None\<rparr>
         \<lparr>cb_now = 600001, cb_origin = ''https://app.example'', cb_opener = True,
           cb_auth = \<lparr>sdk_calls = [], sdk_result = AUTHORIZED\<rparr>\<rparr>
         (redirectToAuthorization
            (BrowserOAuthClientProvider ''https://app.example'' ''a''
               \<lparr>opt_storageKeyPrefix = None, opt_clientName = None, opt_clientUri = None, opt_callbackUrl = None\<rparr>)
            \<lparr>address = ''https://idp.example/authorize'', searchParams = []\<rparr> ''t'' 0 []))
       = Some expired_message
   \<and> getItem (cb_storage (onMcpAuthorization
         \<lparr>q_code = Some ''c'', q_state = Some ''t'', q_error = None, q_error_description = None\<rparr>
         \<lparr>cb_now = 600001, cb_origin = ''https://app.example'', cb_opener = True,
           cb_auth = \<lparr>sdk_calls = [], sdk_result = AUTHORIZED\<rparr>\<rparr>
         (redirectToAuthorization
            (BrowserOAuthClientProvider ''https://app.example'' ''a''
               \<lparr>opt_storageKeyPrefix = None, opt_clientName = None, opt_clientUri = None, opt_callbackUrl = None\<rparr>)
            \<lparr>address = ''https://idp.example/authorize'', searchParams = []\<rparr> ''t'' 0 [])))
       ''mcp:auth:state_t'' = None"
proof -
  let ?q = "\<lparr>q_code = Some ''c'', q_state = Some ''t'', q_error = None, q_error_description = None\<rparr>"
  let ?env = "\<lparr>cb_now = 600001, cb_origin = ''https://app.example'', cb_opener = True,
           cb_auth = \<lparr>sdk_calls = [], sdk_result = AUTHORIZED\<rparr>\<rparr>"
  let ?p = "BrowserOAuthClientProvider ''https://app.example'' ''a''
               \<lparr>opt_storageKeyPrefix = None, opt_clientName = None, opt_clientUri = None, opt_callbackUrl = None\<rparr>"
  let ?u = "\<lparr>address = ''https://idp.example/authorize'', searchParams = []\<rparr>"
  let ?st = "redirectToAuthorization ?p ?u ''t'' 0 []"
  have pre: "storageKeyPrefix ?p = ''mcp:auth''"
    by (simp add: BrowserOAuthClientProvider_def or_else_def)
  have q: "truthy (q_code ?q)" "\<not> truthy (q_error ?q)" "q_state ?q = Some ''t''" "''t'' \<noteq> []"
    by (simp_all add: truthy_def)
  have t: "(0::int) + 10 * 60 * 1000 < cb_now ?env" by simp
  have key: "stateKey ?p ''t'' = ''mcp:auth:state_t''"
    by (simp add: stateKey_def pre)
  have rec: "getItem ?st (callback_state_key ''t'') = Some (StateJson (stateData ?p 0))"
    using redirect_persists [of ?p ?u "''t''" 0 "[]"] by (simp add: key callback_state_key_def)
  have old: "expiry (stateData ?p 0) < cb_now ?env" by (simp add: stateData_def)
  from expiry_under_default_prefix [of ?p ?u "''t''" 0 "[]" ?q ?st "stateData ?p 0" ?env]
  have general: "cb_error (onMcpAuthorization ?q ?env ?st) = Some expired_message"
    using q rec old by blast
  from expiry_under_default_prefix [of ?p ?u "''t''" 0 "[]" ?q ?st "stateData ?p 0" ?env]
  have "getItem (cb_storage (onMcpAuthorization ?q ?env ?st)) (stateKey ?p ''t'') = None"
    using q pre t by blast
  then have gone: "getItem (cb_storage (onMcpAuthorization ?q ?env ?st)) ''mcp:auth:state_t'' = None"
    by (simp only: key)
  from q(1) pre general gone show ?thesis by simp
qed

text \<open>
  Claim C6. A provider with the prefix \<open>app\<close> writes a correlation record at time 0, under
  \<open>app:state_t\<close>, with the expiry 600000. A callback that carries a code and the state \<open>t\<close>
  at time 600001, when the record is older than ten minutes, is rejected, but not as
  expired and without the record being removed: the handler reads \<open>mcp:auth:state_t\<close>, finds
  nothing, fails with the no-matching-state error, and the expired record stays in the
  storage. (With the prefix \<open>mcp:auth\<close> the record is rejected as expired and removed, as
  shown above.)
\<close>

theorem expired_record_survives_under_custom_prefix:
  "getItem
     (redirectToAuthorization
        (BrowserOAuthClientProvider ''https://app.example'' ''a''
           \<lparr>opt_storageKeyPrefix = Some ''app'', opt_clientName = None, opt_clientUri = None,
             opt_callbackUrl = None\<rparr>)
        \<lparr>address = ''https://idp.example/authorize'', searchParams = []\<rparr> ''t'' 0 [])
     ''app:state_t''
   = Some (StateJson
       (stateData (BrowserOAuthClientProvider ''https://app.example'' ''a''
           \<lparr>opt_storageKeyPrefix = Some ''app'', opt_clientName = None, opt_clientUri = None,
             opt_callbackUrl = None\<rparr>) 0))
   \<and> expiry (stateData (BrowserOAuthClientProvider ''https://app.example'' ''a''
           \<lparr>opt_storageKeyPrefix = Some ''app'', opt_clientName = None, opt_clientUri = None,
             opt_callbackUrl = None\<rparr>) 0) = 600000
   \<and> cb_error
       (onMcpAuthorization
          \<lparr>q_code = Some ''c'', q_state = Some ''t'', q_error = None, q_error_description = None\<rparr>
          \<lparr>cb_now = 600001, cb_origin = ''https://app.example'', cb_opener = True,
            cb_auth = \<lparr>sdk_calls = [], sdk_result = AUTHORIZED\<rparr>\<rparr>
          (redirectToAuthorization
             (BrowserOAuthClientProvider ''https://app.example'' ''a''
                \<lparr>opt_storageKeyPrefix = Some ''app'', opt_clientName = None, opt_clientUri = None,
                  opt_callbackUrl = None\<rparr>)
             \<lparr>address = ''https://idp.example/authorize'', searchParams = []\<rparr> ''t'' 0 []))
     = Some (no_matching_state_message ''t'')
   \<and> getItem
       (cb_storage
         (onMcpAuthorization
            \<lparr>q_code = Some ''c'', q_state = Some ''t'', q_error = None, q_error_description = None\<rparr>
            \<lparr>cb_now = 600001, cb_origin = ''https://app.example'', cb_opener = True,
              cb_auth = \<lparr>sdk_calls = [], sdk_result = AUTHORIZED\<rparr>\<rparr>
            (redirectToAuthorization
               (BrowserOAuthClientProvider ''https://app.example'' ''a''
                  \<lparr>opt_storageKeyPrefix = Some ''app'', opt_clientName = None, opt_clientUri = None,
                    opt_callbackUrl = None\<rparr>)
               \<lparr>address = ''https://idp.example/authorize'', searchParams = []\<rparr> ''t'' 0 [])))
       ''app:state_t''
     = Some (StateJson
         (stateData (BrowserOAuthClientProvider ''https://app.example'' ''a''
             \<lparr>opt_storageKeyPrefix = Some ''app'', opt_clientName = None, opt_clientUri = None,
               opt_callbackUrl = None\<rparr>) 0))"
proof -
  define p where "p = BrowserOAuthClientProvider ''https://app.example'' ''a''
           \<lparr>opt_storageKeyPrefix = Some ''app'', opt_clientName = None, opt_clientUri = None,
             opt_callbackUrl = None\<rparr>"
  define st where "st = redirectToAuthorization p
        \<lparr>address = ''https://idp.example/authorize'', searchParams = []\<rparr> ''t'' 0 []"
  define q where "q = \<lparr>q_code = Some ''c'', q_state = Some ''t'', q_error = None,
                       q_error_description = None\<rparr>"
  define env where "env = \<lparr>cb_now = 600001, cb_origin = ''https://app.example'', cb_opener = True,
            cb_auth = \<lparr>sdk_calls = [], sdk_result = AUTHORIZED\<rparr>\<rparr>"
  have k: "stateKey p ''t'' = ''app:state_t''"
    by (simp add: p_def stateKey_def BrowserOAuthClientProvider_def or_else_def)
  have r: "getItem st ''app:state_t'' = Some (StateJson (stateData p 0))"
    using redirect_persists [of p _ "''t''" 0 "[]"] unfolding k st_def .
  have x: "expiry (stateData p 0) = 600000" by (simp add: stateData_def)
  have n: "getItem st (callback_state_key ''t'') = None"
    by (simp add: st_def p_def redirectToAuthorization_def stateKey_def getKey_def
        BrowserOAuthClientProvider_def or_else_def getItem_def Let_def
        callback_state_key_def hashString_a)
  have qs: "q_state q = Some ''t''" "''t'' \<noteq> []" "\<not> truthy (q_error q)" "truthy (q_code q)"
    by (simp_all add: q_def truthy_def)
  note u = callback_unknown_token [OF qs n, of env]
  have "cb_error (onMcpAuthorization q env st) = Some (no_matching_state_message ''t'')"
    and "cb_storage (onMcpAuthorization q env st) = st"
    unfolding u by simp_all
  with r x show ?thesis unfolding st_def p_def q_def env_def by simp
qed

text \<open>
  Claim C8. The credential keys are \<open>{prefix}_{serverHash}_{suffix}\<close> (\<open>getKey\<close>) and the provider
  writes a correlation record under \<open>{prefix}:state_{token}\<close> (\<open>stateKey\<close>), for every prefix. The
  completion handler reads \<open>mcp:auth:state_{token}\<close> whatever the prefix: with the prefix
  \<open>app\<close>, the record written under \<open>app:state_t\<close> is not found by a callback that carries a
  code and the state \<open>t\<close> before the record expires, and the completion fails with the
  no-matching-state error.
\<close>

theorem callback_ignores_storage_key_prefix:"getItem
     (redirectToAuthorization
        (BrowserOAuthClientProvider ''https://app.example'' ''a''
           \<lparr>opt_storageKeyPrefix = Some ''app'', opt_clientName = None, opt_clientUri = None,
             opt_callbackUrl = None\<rparr>)
        \<lparr>address = ''https://idp.example/authorize'', searchParams = []\<rparr> ''t'' 0 [])
     ''app:state_t''
   = Some (StateJson
       (stateData (BrowserOAuthClientProvider ''https://app.example'' ''a''
           \<lparr>opt_storageKeyPrefix = Some ''app'', opt_clientName = None, opt_clientUri = None,
             opt_callbackUrl = None\<rparr>) 0))
   \<and> cb_error
       (onMcpAuthorization
          \<lparr>q_code = Some ''c'', q_state = Some ''t'', q_error = None, q_error_description = None\<rparr>
          \<lparr>cb_now = 1, cb_origin = ''https://app.example'', cb_opener = True,
            cb_auth = \<lparr>sdk_calls = [], sdk_result = AUTHORIZED\<rparr>\<rparr>
          (redirectToAuthorization
             (BrowserOAuthClientProvider ''https://app.example'' ''a''
                \<lparr>opt_storageKeyPrefix = Some ''app'', opt_clientName = None, opt_clientUri = None,
                  opt_callbackUrl = None\<rparr>)
             \<lparr>address = ''https://idp.example/authorize'', searchParams = []\<rparr> ''t'' 0 []))
     = Some (no_matching_state_message ''t'')"
  by (simp add: redirectToAuthorization_def stateKey_def getKey_def BrowserOAuthClientProvider_def
      or_else_def stateData_def getItem_def Let_def url_toString_def hashString_a
      onMcpAuthorization_def callback_try_def stateKey_of_def callback_state_key_def truthy_def
      present_def)

section \<open>What the hook's primitives change\<close>

lemma addLog_frame [simp]:
  "state (addLog l m a h) = state h"
  "tools (addLog l m a h) = tools h"
  "resources (addLog l m a h) = resources h"
  "prompts (addLog l m a h) = prompts h"
  "error (addLog l m a h) = error h"
  "authUrl (addLog l m a h) = authUrl h"
  "clientRef (addLog l m a h) = clientRef h"
  "transportRef (addLog l m a h) = transportRef h"
  "authProviderRef (addLog l m a h) = authProviderRef h"
  "connectingRef (addLog l m a h) = connectingRef h"
  "isMountedRef (addLog l m a h) = isMountedRef h"
  "connectAttemptRef (addLog l m a h) = connectAttemptRef h"
  "authTimeoutRef (addLog l m a h) = authTimeoutRef h"
  "stateRef (addLog l m a h) = stateRef h"
  "successfulTransportRef (addLog l m a h) = successfulTransportRef h"
  "localStorage (addLog l m a h) = localStorage h"
  "created (addLog l m a h) = created h"
  "requested (addLog l m a h) = requested h"
  "clock (addLog l m a h) = clock h"
  by (simp_all add: addLog_def Let_def)

lemma addLog_console [simp]:
  "console (addLog l m a h) = console h @ [(l, ''[useMcp] '' @ fullMessage m a)]"
  by (simp add: addLog_def Let_def)

lemma failConnection_frame [simp]:
  "tools (failConnection m b h) = tools h"
  "resources (failConnection m b h) = resources h"
  "prompts (failConnection m b h) = prompts h"
  "clientRef (failConnection m b h) = clientRef h"
  "transportRef (failConnection m b h) = transportRef h"
  "authProviderRef (failConnection m b h) = authProviderRef h"
  "connectingRef (failConnection m b h) = False"
  "isMountedRef (failConnection m b h) = isMountedRef h"
  "connectAttemptRef (failConnection m b h) = connectAttemptRef h"
  "authTimeoutRef (failConnection m b h) = authTimeoutRef h"
  "stateRef (failConnection m b h) = stateRef h"
  "successfulTransportRef (failConnection m b h) = successfulTransportRef h"
  "localStorage (failConnection m b h) = localStorage h"
  "created (failConnection m b h) = created h"
  "requested (failConnection m b h) = requested h"
  "clock (failConnection m b h) = clock h"
  by (simp_all add: failConnection_def Let_def)

lemma failConnection_state [simp]:
  "state (failConnection m b h) = (if isMountedRef h then Failed else state h)"
  "error (failConnection m b h) = (if isMountedRef h then Some m else error h)"
  by (simp_all add: failConnection_def Let_def)

lemma disconnect_quiet_frame [simp]:
  "state (disconnect True b h) = state h"
  "tools (disconnect True b h) = tools h"
  "resources (disconnect True b h) = resources h"
  "prompts (disconnect True b h) = prompts h"
  "error (disconnect True b h) = error h"
  "authUrl (disconnect True b h) = authUrl h"
  "clientRef (disconnect True b h) = False"
  "transportRef (disconnect True b h) = None"
  "authProviderRef (disconnect True b h) = authProviderRef h"
  "connectingRef (disconnect True b h) = False"
  "isMountedRef (disconnect True b h) = isMountedRef h"
  "connectAttemptRef (disconnect True b h) = connectAttemptRef h"
  "authTimeoutRef (disconnect True b h) = False"
  "stateRef (disconnect True b h) = stateRef h"
  "successfulTransportRef (disconnect True b h) = successfulTransportRef h"
  "localStorage (disconnect True b h) = localStorage h"
  "created (disconnect True b h) = created h"
  "requested (disconnect True b h) = requested h"
  "clock (disconnect True b h) = clock h"
  by (simp_all add: disconnect_def Let_def split: option.splits)

lemma unmount_cleanup_frame [simp]:
  "state (unmount_cleanup h) = state h"
  "tools (unmount_cleanup h) = tools h"
  "resources (unmount_cleanup h) = resources h"
  "prompts (unmount_cleanup h) = prompts h"
  "error (unmount_cleanup h) = error h"
  "authUrl (unmount_cleanup h) = authUrl h"
  "clientRef (unmount_cleanup h) = False"
  "transportRef (unmount_cleanup h) = None"
  "authProviderRef (unmount_cleanup h) = authProviderRef h"
  "connectingRef (unmount_cleanup h) = False"
  "isMountedRef (unmount_cleanup h) = False"
  "connectAttemptRef (unmount_cleanup h) = connectAttemptRef h"
  "authTimeoutRef (unmount_cleanup h) = False"
  "stateRef (unmount_cleanup h) = stateRef h"
  "successfulTransportRef (unmount_cleanup h) = successfulTransportRef h"
  "localStorage (unmount_cleanup h) = localStorage h"
  "created (unmount_cleanup h) = created h"
  "requested (unmount_cleanup h) = requested h"
  "clock (unmount_cleanup h) = clock h"
  by (simp_all add: unmount_cleanup_def Let_def)

lemma await_frame [simp]:
  "state (await t h) = state h"
  "tools (await t h) = tools h"
  "resources (await t h) = resources h"
  "prompts (await t h) = prompts h"
  "error (await t h) = error h"
  "authUrl (await t h) = authUrl h"
  "authProviderRef (await t h) = authProviderRef h"
  "connectAttemptRef (await t h) = connectAttemptRef h"
  "successfulTransportRef (await t h) = successfulTransportRef h"
  "localStorage (await t h) = localStorage h"
  "created (await t h) = created h"
  "requested (await t h) = requested h"
  by (simp_all add: await_def Let_def)

lemma await_refs [simp]:
  "isMountedRef (await t h) = (isMountedRef h \<and> \<not> unmount t)"
  "clientRef (await t h) = (if isMountedRef h \<and> unmount t then False else clientRef h)"
  "transportRef (await t h) = (if isMountedRef h \<and> unmount t then None else transportRef h)"
  "connectingRef (await t h) = (if isMountedRef h \<and> unmount t then False else connectingRef h)"
  "authTimeoutRef (await t h) = (if isMountedRef h \<and> unmount t then False else authTimeoutRef h)"
  "stateRef (await t h) = (if isMountedRef h \<and> commit t then state h else stateRef h)"
  by (simp_all add: await_def Let_def)

lemma finish_frame [simp]:
  "tools (finish r h) = tools h"
  "resources (finish r h) = resources h"
  "prompts (finish r h) = prompts h"
  "clientRef (finish r h) = clientRef h"
  "transportRef (finish r h) = transportRef h"
  "authProviderRef (finish r h) = authProviderRef h"
  "isMountedRef (finish r h) = isMountedRef h"
  "connectAttemptRef (finish r h) = connectAttemptRef h"
  "authTimeoutRef (finish r h) = authTimeoutRef h"
  "stateRef (finish r h) = stateRef h"
  "successfulTransportRef (finish r h) = successfulTransportRef h"
  "localStorage (finish r h) = localStorage h"
  "created (finish r h) = created h"
  "requested (finish r h) = requested h"
  "clock (finish r h) = clock h"
  by (simp_all add: finish_def Let_def)

lemma finish_state [simp]:
  "state (finish r h) = (if r = Fallback \<and> isMountedRef h then Failed else state h)"
  "error (finish r h) = (if r = Fallback \<and> isMountedRef h then Some ''All transport methods failed'' else error h)"
  "connectingRef (finish r h) = (if r = AuthRedirect then connectingRef h else False)"
  by (cases r; simp add: finish_def Let_def)+

lemma resume_outer_frame [simp]:
  "state (resume_outer p h) = state h"
  "error (resume_outer p h) = error h"
  "tools (resume_outer p h) = tools h"
  "resources (resume_outer p h) = resources h"
  "prompts (resume_outer p h) = prompts h"
  "clientRef (resume_outer p h) = clientRef h"
  "transportRef (resume_outer p h) = transportRef h"
  "authProviderRef (resume_outer p h) = authProviderRef h"
  "isMountedRef (resume_outer p h) = isMountedRef h"
  "connectAttemptRef (resume_outer p h) = connectAttemptRef h"
  "authTimeoutRef (resume_outer p h) = authTimeoutRef h"
  "stateRef (resume_outer p h) = stateRef h"
  "successfulTransportRef (resume_outer p h) = successfulTransportRef h"
  "localStorage (resume_outer p h) = localStorage h"
  "created (resume_outer p h) = created h"
  "requested (resume_outer p h) = requested h"
  "clock (resume_outer p h) = clock h"
  "connectingRef (resume_outer p h) = (if p then False else connectingRef h)"
  by (simp_all add: resume_outer_def)

lemma connect_init_frame [simp]:
  "state (connect_init cfg h) = Discovering"
  "error (connect_init cfg h) = None"
  "authUrl (connect_init cfg h) = None"
  "tools (connect_init cfg h) = tools h"
  "resources (connect_init cfg h) = resources h"
  "prompts (connect_init cfg h) = prompts h"
  "clientRef (connect_init cfg h) = True"
  "transportRef (connect_init cfg h) = transportRef h"
  "authProviderRef (connect_init cfg h) = Some (provider_of cfg h)"
  "connectingRef (connect_init cfg h) = True"
  "isMountedRef (connect_init cfg h) = isMountedRef h"
  "connectAttemptRef (connect_init cfg h) = connectAttemptRef h + 1"
  "authTimeoutRef (connect_init cfg h) = authTimeoutRef h"
  "stateRef (connect_init cfg h) = stateRef h"
  "successfulTransportRef (connect_init cfg h) = None"
  "localStorage (connect_init cfg h) = localStorage h"
  "created (connect_init cfg h) = created h"
  "requested (connect_init cfg h) = requested h"
  "clock (connect_init cfg h) = clock h"
  by (simp_all add: connect_init_def provider_of_def Let_def split: option.splits)

lemma enter_attempt_frame [simp]:
  "error (enter_attempt t h) = error h"
  "authUrl (enter_attempt t h) = authUrl h"
  "tools (enter_attempt t h) = tools h"
  "resources (enter_attempt t h) = resources h"
  "prompts (enter_attempt t h) = prompts h"
  "clientRef (enter_attempt t h) = clientRef h"
  "transportRef (enter_attempt t h) = transportRef h"
  "authProviderRef (enter_attempt t h) = authProviderRef h"
  "connectingRef (enter_attempt t h) = connectingRef h"
  "isMountedRef (enter_attempt t h) = isMountedRef h"
  "connectAttemptRef (enter_attempt t h) = connectAttemptRef h"
  "authTimeoutRef (enter_attempt t h) = authTimeoutRef h"
  "stateRef (enter_attempt t h) = stateRef h"
  "successfulTransportRef (enter_attempt t h) = successfulTransportRef h"
  "localStorage (enter_attempt t h) = localStorage h"
  "created (enter_attempt t h) = created h"
  "requested (enter_attempt t h) = requested h"
  "clock (enter_attempt t h) = clock h"
  "state (enter_attempt t h) = (if stateRef h \<noteq> Authenticating then Connecting else state h)"
  by (simp_all add: enter_attempt_def Let_def)

lemma close_previous_frame [simp]:
  "state (close_previous e p h) = state h"
  "error (close_previous e p h) = error h"
  "tools (close_previous e p h) = tools h"
  "resources (close_previous e p h) = resources h"
  "prompts (close_previous e p h) = prompts h"
  "authProviderRef (close_previous e p h) = authProviderRef h"
  "connectAttemptRef (close_previous e p h) = connectAttemptRef h"
  "successfulTransportRef (close_previous e p h) = successfulTransportRef h"
  "localStorage (close_previous e p h) = localStorage h"
  "created (close_previous e p h) = created h"
  "requested (close_previous e p h) = requested h"
  "transportRef (close_previous e p h) = None"
  by (simp_all add: close_previous_def Let_def split: option.splits)

lemma close_previous_refs [simp]:
  "isMountedRef (close_previous e p h) =
     (isMountedRef h \<and> (transportRef h = None \<or> \<not> unmount (close_tick e)))"
  "clientRef (close_previous e p h) =
     (if transportRef h \<noteq> None \<and> isMountedRef h \<and> unmount (close_tick e) then False else clientRef h)"
  "stateRef (close_previous e p h) =
     (if transportRef h \<noteq> None \<and> isMountedRef h \<and> commit (close_tick e) then state h else stateRef h)"
  "connectingRef (close_previous e p h) =
     (if transportRef h = None then connectingRef h
      else if isMountedRef h \<and> unmount (close_tick e) then False
      else if p then False else connectingRef h)"
  "authTimeoutRef (close_previous e p h) =
     (if transportRef h \<noteq> None \<and> isMountedRef h \<and> unmount (close_tick e) then False
      else authTimeoutRef h)"
  by (auto simp: close_previous_def Let_def split: option.splits)

lemma construct_transport_frame [simp]:
  "state (construct_transport t h) = state h"
  "error (construct_transport t h) = error h"
  "authUrl (construct_transport t h) = authUrl h"
  "tools (construct_transport t h) = tools h"
  "resources (construct_transport t h) = resources h"
  "prompts (construct_transport t h) = prompts h"
  "clientRef (construct_transport t h) = clientRef h"
  "transportRef (construct_transport t h) = Some t"
  "authProviderRef (construct_transport t h) = authProviderRef h"
  "connectingRef (construct_transport t h) = connectingRef h"
  "isMountedRef (construct_transport t h) = isMountedRef h"
  "connectAttemptRef (construct_transport t h) = connectAttemptRef h"
  "authTimeoutRef (construct_transport t h) = authTimeoutRef h"
  "stateRef (construct_transport t h) = stateRef h"
  "successfulTransportRef (construct_transport t h) = successfulTransportRef h"
  "localStorage (construct_transport t h) = localStorage h"
  "created (construct_transport t h) = created h @ [t]"
  "requested (construct_transport t h) = requested h"
  "clock (construct_transport t h) = clock h"
  by (simp_all add: construct_transport_def)

lemma begin_auth_frame [simp]:
  "error (begin_auth h) = error h"
  "authUrl (begin_auth h) = authUrl h"
  "tools (begin_auth h) = tools h"
  "resources (begin_auth h) = resources h"
  "prompts (begin_auth h) = prompts h"
  "clientRef (begin_auth h) = clientRef h"
  "transportRef (begin_auth h) = transportRef h"
  "authProviderRef (begin_auth h) = authProviderRef h"
  "connectingRef (begin_auth h) = connectingRef h"
  "isMountedRef (begin_auth h) = isMountedRef h"
  "connectAttemptRef (begin_auth h) = connectAttemptRef h"
  "stateRef (begin_auth h) = stateRef h"
  "successfulTransportRef (begin_auth h) = successfulTransportRef h"
  "localStorage (begin_auth h) = localStorage h"
  "created (begin_auth h) = created h"
  "requested (begin_auth h) = requested h"
  "clock (begin_auth h) = clock h"
  "state (begin_auth h) = (if stateRef h \<noteq> Authenticating then Authenticating else state h)"
  "authTimeoutRef (begin_auth h) = (if stateRef h \<noteq> Authenticating then True else authTimeoutRef h)"
  by (simp_all add: begin_auth_def Let_def)

lemma store_catalogs_frame [simp]:
  "state (store_catalogs e h) = state h"
  "error (store_catalogs e h) = error h"
  "authUrl (store_catalogs e h) = authUrl h"
  "clientRef (store_catalogs e h) = clientRef h"
  "transportRef (store_catalogs e h) = transportRef h"
  "authProviderRef (store_catalogs e h) = authProviderRef h"
  "connectingRef (store_catalogs e h) = connectingRef h"
  "isMountedRef (store_catalogs e h) = isMountedRef h"
  "connectAttemptRef (store_catalogs e h) = connectAttemptRef h"
  "authTimeoutRef (store_catalogs e h) = authTimeoutRef h"
  "stateRef (store_catalogs e h) = stateRef h"
  "successfulTransportRef (store_catalogs e h) = successfulTransportRef h"
  "localStorage (store_catalogs e h) = localStorage h"
  "created (store_catalogs e h) = created h"
  "requested (store_catalogs e h) = requested h"
  "clock (store_catalogs e h) = clock h"
  by (simp_all add: store_catalogs_def Let_def split: sum.splits)

lemma store_catalogs_lists [simp]:
  "tools (store_catalogs e h) = (case tools_response e of Inr ts \<Rightarrow> ts | Inl r \<Rightarrow> [])"
  "resources (store_catalogs e h) = (case resources_response e of Inr ts \<Rightarrow> ts | Inl r \<Rightarrow> [])"
  "prompts (store_catalogs e h) = (case prompts_response e of Inr ts \<Rightarrow> ts | Inl r \<Rightarrow> [])"
  by (simp_all add: store_catalogs_def Let_def split: sum.splits)

lemma created_auth_failed [simp]: "created (snd (snd (auth_failed t m h))) = created h"
  by (simp add: auth_failed_def Let_def)

lemma created_auth_flow [simp]: "created (snd (snd (auth_flow t e h))) = created h"
  by (simp add: auth_flow_def Let_def split: option.splits prod.splits auth_result.splits)

lemma created_connect_catch [simp]: "created (snd (snd (connect_catch t e err h))) = created h"
  by (simp add: connect_catch_def Let_def)

lemma created_load_catalog [simp]: "created (snd (snd (load_catalog t e h))) = created h"
  by (simp add: load_catalog_def Let_def)

lemma created_fail_create [simp]: "created (snd (snd (fail_create t m p h))) = created h"
  by (simp add: fail_create_def)

lemma attempt_creates:
  assumes "authProviderRef h \<noteq> None" "clientRef h" "url_error cfg = None"
  shows "created (snd (snd (tryConnectWithTransport cfg t e p h))) = created h @ [t]"
  using assms
  by (simp add: tryConnectWithTransport_def Let_def split: option.splits)

section \<open>One transport attempt\<close>

lemma attempt_settles:
  assumes "authProviderRef h \<noteq> None" "clientRef h" "isMountedRef h" "url_error cfg = None"
    and "transportRef h = None \<or> \<not> unmount (close_tick e)"
  shows "tryConnectWithTransport cfg t e p h =
           (case connect_outcome e of
              Some err \<Rightarrow> connect_catch t e err (before_connect t e p h)
            | None \<Rightarrow> load_catalog t e (before_connect t e p h))"
proof -
  have c: "clientRef (construct_transport t (close_previous e p (enter_attempt t h)))"
    using assms(2,3,5) by auto
  have a: "authProviderRef (enter_attempt t h) \<noteq> None" "clientRef (enter_attempt t h)"
    using assms(1,2) by simp_all
  show ?thesis
    unfolding tryConnectWithTransport_def Let_def before_connect_def
    by (simp only: a c assms(1,2,4) if_False if_True option.case enter_attempt_frame refl simp_thms)
qed

lemma before_connect_frame [simp]:
  "error (before_connect t e p h) = error h"
  "authProviderRef (before_connect t e p h) = authProviderRef h"
  "created (before_connect t e p h) = created h @ [t]"
  "localStorage (before_connect t e p h) = localStorage h"
  "requested (before_connect t e p h) = requested h"
  "state (before_connect t e p h) = (if stateRef h \<noteq> Authenticating then Connecting else state h)"
  by (simp_all add: before_connect_def)

lemma before_connect_calm:
  assumes "isMountedRef h" "\<not> unmount (connect_tick e)" "transportRef h = None \<or> \<not> unmount (close_tick e)"
  shows "isMountedRef (before_connect t e p h)"
    and "clientRef (before_connect t e p h) = clientRef h"
    and "transportRef (before_connect t e p h) = Some t"
    and "stateRef (before_connect t e p h) =
           (if commit (connect_tick e) then (if stateRef h \<noteq> Authenticating then Connecting else state h)
            else if transportRef h \<noteq> None \<and> commit (close_tick e)
              then (if stateRef h \<noteq> Authenticating then Connecting else state h)
            else stateRef h)"
  using assms by (cases "transportRef h"; simp add: before_connect_def)+

lemma connect_catch_soft:
  assumes "is404 (err_message err) \<or> is405 (err_message err) \<or> isLikelyCors (err_message err)"
  shows "connect_catch Http e err h =
          (Fallback, False,
           addLog LWarn (''HTTP transport failed ('' @
                          (if isLikelyCors (err_message err) then ''CORS''
                           else if is404 (err_message err) then ''404'' else ''405'') @
                          ''). Will attempt fallback to SSE.'') []
             (addLog LDebug ''Client connect error via HTTP:'' [''{}''] h))"
  using assms by (simp add: connect_catch_def Let_def)


section \<open>The log feed\<close>

lemma fullMessage_no_args [simp]: "fullMessage m [] = m"
  by (simp add: fullMessage_def)

lemma addLog_log:
  "isMountedRef h \<Longrightarrow>
   log (addLog l m a h) =
     drop (length (log h) - 100) (log h) @ [\<lparr>level = l, message = fullMessage m a, timestamp = clock h\<rparr>]"
  by (simp add: addLog_def Let_def)

lemma addLog_log_unmounted: "\<not> isMountedRef h \<Longrightarrow> log (addLog l m a h) = log h"
  by (simp add: addLog_def Let_def)

lemma addLogs_mounted [simp]: "isMountedRef (addLogs ms h) = isMountedRef h"
  by (induction ms h rule: addLogs.induct) simp_all

lemma drop_window:
  assumes "length L \<le> 101"
  shows "drop (min (length L) 100 + 1 + n - 101) (drop (length L - 100) L @ x # M)
       = drop (length L + Suc n - 101) (L @ x # M)"
proof (cases "length L \<le> 100")
  case True
  then show ?thesis by (simp add: min_def)
next
  case False
  with assms have l: "length L = 101" by simp
  then obtain y L' where L: "L = y # L'" by (cases L) auto
  with l have "length L' = 100" by simp
  then show ?thesis by (simp add: L)
qed

lemma addLogs_messages:
  "isMountedRef h \<Longrightarrow> length (log h) \<le> 101 \<Longrightarrow>
   map message (log (addLogs ms h)) =
     drop (length (log h) + length ms - 101) (map message (log h) @ map snd ms)"
proof (induction ms h rule: addLogs.induct)
  case (1 h)
  then show ?case by simp
next
  case (2 lvl msg ms h)
  let ?h = "addLog lvl msg [] h"
  have m: "isMountedRef ?h" using 2(2) by simp
  have lg: "map message (log ?h) = drop (length (log h) - 100) (map message (log h)) @ [msg]"
    by (simp add: addLog_log [OF 2(2)] drop_map)
  have len: "length (log ?h) = min (length (log h)) 100 + 1"
    by (simp add: addLog_log [OF 2(2)] min_def)
  then have "length (log ?h) \<le> 101" by simp
  from 2(1) [OF m this]
  have "map message (log (addLogs ms ?h)) =
          drop (min (length (log h)) 100 + 1 + length ms - 101)
            (drop (length (map message (log h)) - 100) (map message (log h)) @ msg # map snd ms)"
    by (simp add: lg len)
  also have "\<dots> = drop (length (map message (log h)) + Suc (length ms) - 101)
                     (map message (log h) @ msg # map snd ms)"
    using drop_window [of "map message (log h)" "length ms" msg "map snd ms"] 2(3) by simp
  finally show ?case by simp
qed

text \<open>
  Claim C10. The log feed is not capped at 100 entries: \<open>[...prevLog.slice(-100), entry]\<close> keeps
  the last 100 entries and adds one, so the feed holds up to 101. After 101 appends to the
  empty feed of a mounted hook all 101 entries are there, the first one included. (In
  general the feed holds the last 101 of the entries appended, in order: \<open>addLogs_messages\<close>.)
\<close>

theorem log_feed_holds_101:"map message (log (addLogs ((LInfo, ''first'') # replicate 100 (LInfo, ''later'')) initial_hook))
     = ''first'' # replicate 100 ''later''
   \<and> length (log (addLogs ((LInfo, ''first'') # replicate 100 (LInfo, ''later'')) initial_hook)) = 101"
proof -
  have i: "isMountedRef initial_hook" "length (log initial_hook) \<le> 101"
    by (simp_all add: initial_hook_def)
  have l: "log initial_hook = []" by (simp add: initial_hook_def)
  from addLogs_messages [OF i, of "(LInfo, ''first'') # replicate 100 (LInfo, ''later'')"]
  have ms: "map message (log (addLogs ((LInfo, ''first'') # replicate 100 (LInfo, ''later'')) initial_hook))
     = ''first'' # replicate 100 ''later''"
    by (simp add: l)
  have "length (map message (log (addLogs ((LInfo, ''first'') # replicate 100 (LInfo, ''later'')) initial_hook)))
      = 101"
    unfolding ms by simp
  then have "length (log (addLogs ((LInfo, ''first'') # replicate 100 (LInfo, ''later'')) initial_hook)) = 101"
    by (simp only: length_map)
  with ms show ?thesis by (rule conjI)
qed

section \<open>connect while a connection attempt is in progress\<close>

text \<open>
  Claim C3. A call of \<open>connect()\<close> while the in-progress flag is set is a no-op: it ends at
  the first guard, no transport is constructed and the active transport stays, the attempt
  counter is not incremented, and the state, the error, the authorization URL and the three
  catalogs are unchanged (as are the client, the provider, the storage and the requests
  made). Its only effect is one debug line on the console and in the log feed.
\<close>

theorem connect_in_progress_is_noop:
  assumes "connectingRef h"
  shows "\<exists>h'. connect cfg (c # cs) False h = Some h'
           \<and> connect_once cfg c False h = (NoOp, h')
           \<and> created h' = created h \<and> transportRef h' = transportRef h
           \<and> connectAttemptRef h' = connectAttemptRef h
           \<and> state h' = state h \<and> stateRef h' = stateRef h
           \<and> error h' = error h \<and> authUrl h' = authUrl h
           \<and> tools h' = tools h \<and> resources h' = resources h \<and> prompts h' = prompts h
           \<and> requested h' = requested h \<and> localStorage h' = localStorage h
           \<and> connectingRef h' \<and> clientRef h' = clientRef h
           \<and> authProviderRef h' = authProviderRef h
           \<and> console h' = console h @ [(LDebug, ''[useMcp] Connection attempt already in progress.'')]"
proof -
  have o: "connect_once cfg c False h =
             (NoOp, addLog LDebug ''Connection attempt already in progress.'' [] h)"
    using assms by (simp add: connect_once_def resume_outer_def)
  show ?thesis
    by (rule exI [of _ "addLog LDebug ''Connection attempt already in progress.'' [] h"])
      (simp add: o assms)
qed

theorem connect_in_progress_is_noop_witness:
  "connectingRef (initial_hook\<lparr>connectingRef := True\<rparr>)
   \<and> connect example_config [\<lparr>http_env = answering, sse_env = answering\<rparr>] False
        (initial_hook\<lparr>connectingRef := True\<rparr>)
       = Some (addLog LDebug ''Connection attempt already in progress.'' []
                (initial_hook\<lparr>connectingRef := True\<rparr>))
   \<and> created (addLog LDebug ''Connection attempt already in progress.'' []
                (initial_hook\<lparr>connectingRef := True\<rparr>)) = []"
proof -
  have c: "connectingRef (initial_hook\<lparr>connectingRef := True\<rparr>)" by simp
  from connect_in_progress_is_noop [OF c, of example_config "\<lparr>http_env = answering, sse_env = answering\<rparr>" "[]"]
  obtain h' where h: "connect example_config [\<lparr>http_env = answering, sse_env = answering\<rparr>] False
        (initial_hook\<lparr>connectingRef := True\<rparr>) = Some h'"
    "connect_once example_config \<lparr>http_env = answering, sse_env = answering\<rparr> False
        (initial_hook\<lparr>connectingRef := True\<rparr>) = (NoOp, h')"
    "created h' = created (initial_hook\<lparr>connectingRef := True\<rparr>)"
    by blast
  have "connect_once example_config \<lparr>http_env = answering, sse_env = answering\<rparr> False
        (initial_hook\<lparr>connectingRef := True\<rparr>)
      = (NoOp, addLog LDebug ''Connection attempt already in progress.'' [] (initial_hook\<lparr>connectingRef := True\<rparr>))"
    by (simp add: connect_once_def resume_outer_def)
  with h(2) have e: "h' = addLog LDebug ''Connection attempt already in progress.'' [] (initial_hook\<lparr>connectingRef := True\<rparr>)"
    by simp
  from h(1,3) c show ?thesis unfolding e by (simp add: initial_hook_def)
qed

section \<open>Request operations\<close>

text \<open>
  Claim C4. Each of the five request operations, called while the latest-state snapshot
  \<open>stateRef.current\<close> is not \<open>ready\<close> or there is no client, rejects with the not-ready
  error; the hook is returned unchanged, so no request is passed to the client and nothing is
  logged. The message names the operation (with the tool, resource or prompt asked for) and
  the state \<open>rendered\<close>: the constant \<open>state\<close> of the render that created the callback. The
  guard does not read that constant, and the message does not read the snapshot. For the
  callback of the last committed render the two are equal; a callback kept from an earlier
  render names the state of that render.
\<close>

theorem request_when_not_ready:
  assumes "stateRef h \<noteq> Ready \<or> \<not> clientRef h"
  shows "callTool rendered name args e h =
           (Rejected (''MCP client is not ready (current state: '' @ state_name rendered @
                      ''). Cannot call tool '' @ quoted name @ ''.''), False, h)
       \<and> listResources rendered cursor e h =
           (Rejected (''MCP client is not ready (current state: '' @ state_name rendered @
                      ''). Cannot list resources.''), h)
       \<and> readResource rendered uri e h =
           (Rejected (''MCP client is not ready (current state: '' @ state_name rendered @
                      ''). Cannot read resource '' @ quoted uri @ ''.''), h)
       \<and> listPrompts rendered cursor e h =
           (Rejected (''MCP client is not ready (current state: '' @ state_name rendered @
                      ''). Cannot list prompts.''), h)
       \<and> getPrompt rendered name e h =
           (Rejected (''MCP client is not ready (current state: '' @ state_name rendered @
                      ''). Cannot get prompt '' @ quoted name @ ''.''), h)"
  using assms
  by (auto simp add: callTool_def listResources_def readResource_def listPrompts_def getPrompt_def
      request_operation_def not_ready_message_def)

text \<open>
  An instance: the callback of the last committed render (\<open>rendered\<close> is the snapshot) on a
  freshly mounted hook, whose state is \<open>discovering\<close>.
\<close>

theorem request_when_not_ready_witness:
  "callTool (stateRef initial_hook) ''search'' ''{}'' (rejected_request ''x'' REDIRECT) initial_hook
       = (Rejected (''MCP client is not ready (current state: discovering). Cannot call tool '' @
                    quoted ''search'' @ ''.''), False, initial_hook)
   \<and> listResources (stateRef initial_hook) None (rejected_request ''x'' REDIRECT) initial_hook
       = (Rejected ''MCP client is not ready (current state: discovering). Cannot list resources.'',
          initial_hook)
   \<and> requested initial_hook = []"
proof -
  have n: "stateRef initial_hook \<noteq> Ready \<or> \<not> clientRef initial_hook"
    by (simp add: initial_hook_def)
  have s: "stateRef initial_hook = Discovering" "requested initial_hook = []"
    by (simp_all add: initial_hook_def)
  from request_when_not_ready
    [OF n, of "stateRef initial_hook" "''search''" "''{}''" "rejected_request ''x'' REDIRECT" None]
  show ?thesis by (simp add: s)
qed

text \<open>
  The message need not name the current state, and the guard does not read the state that
  \<open>setState\<close> has set last. A session has failed and the render with the state \<open>failed\<close> is
  committed; \<open>callTool\<close> kept from the render in which the state was \<open>ready\<close> rejects with
  \<open>current state: ready\<close>. And a session whose state was set to \<open>failed\<close> by \<open>failConnection\<close>,
  before that render is committed (the snapshot still reads \<open>ready\<close>): \<open>listResources\<close> passes
  the guard and issues its request.
\<close>

theorem not_ready_error_names_stale_state:
  "state (ready_hook\<lparr>state := Failed, stateRef := Failed\<rparr>) = Failed
   \<and> stateRef (ready_hook\<lparr>state := Failed, stateRef := Failed\<rparr>) = Failed
   \<and> callTool Ready ''search'' ''{}'' (rejected_request ''x'' REDIRECT)
        (ready_hook\<lparr>state := Failed, stateRef := Failed\<rparr>)
       = (Rejected (''MCP client is not ready (current state: ready). Cannot call tool '' @
                    quoted ''search'' @ ''.''), False,
          ready_hook\<lparr>state := Failed, stateRef := Failed\<rparr>)
   \<and> state (ready_hook\<lparr>state := Failed\<rparr>) = Failed
   \<and> fst (listResources Ready None
            ((rejected_request ''x'' REDIRECT)\<lparr>req_error := None, req_result := ''{}''\<rparr>)
            (ready_hook\<lparr>state := Failed\<rparr>))
       = Resolved (Some ''{}'')
   \<and> requested (snd (listResources Ready None
            ((rejected_request ''x'' REDIRECT)\<lparr>req_error := None, req_result := ''{}''\<rparr>)
            (ready_hook\<lparr>state := Failed\<rparr>)))
       = [''resources/list'']"
  by (simp add: callTool_def listResources_def request_operation_def not_ready_message_def
      ready_hook_def initial_hook_def rejected_request_def Let_def)

text \<open>
  Claim C9. Only \<open>callTool\<close> has the re-authorization path. On a ready session whose server
  answers a request with \<open>HTTP 401\<close>: \<open>listResources\<close> logs the error and throws it again, the
  state stays \<open>ready\<close>, no timeout is armed and \<open>auth\<close> is not run, whether \<open>auth\<close> would answer
  \<open>AUTHORIZED\<close> or \<open>REDIRECT\<close>; \<open>callTool\<close> on the same response runs \<open>auth\<close>, on \<open>AUTHORIZED\<close> calls
  \<open>connect()\<close> and on both answers resolves to \<open>undefined\<close>. (\<open>readResource\<close>, \<open>listPrompts\<close> and
  \<open>getPrompt\<close> have the shape of \<open>listResources\<close>: \<open>request_operation\<close>.)
\<close>

theorem only_callTool_reauthorizes:"listResources Ready None (rejected_request ''HTTP 401'' AUTHORIZED) ready_hook
     = (Rejected ''HTTP 401'',
        addLog LError ''Error listing resources: HTTP 401'' [''{}'']
          (await calm ((addLog LInfo ''Listing resources'' [] ready_hook)
             \<lparr>requested := [''resources/list'']\<rparr>)))
   \<and> state (snd (listResources Ready None (rejected_request ''HTTP 401'' AUTHORIZED) ready_hook)) = Ready
   \<and> \<not> authTimeoutRef (snd (listResources Ready None (rejected_request ''HTTP 401'' AUTHORIZED) ready_hook))
   \<and> fst (callTool Ready ''search'' ''{}'' (rejected_request ''HTTP 401'' AUTHORIZED) ready_hook)
       = Resolved None
   \<and> fst (snd (callTool Ready ''search'' ''{}'' (rejected_request ''HTTP 401'' AUTHORIZED) ready_hook))
   \<and> state (snd (snd (callTool Ready ''search'' ''{}'' (rejected_request ''HTTP 401'' AUTHORIZED) ready_hook)))
       = Authenticating
   \<and> fst (listResources Ready None (rejected_request ''HTTP 401'' REDIRECT) ready_hook)
       = Rejected ''HTTP 401''
   \<and> fst (callTool Ready ''search'' ''{}'' (rejected_request ''HTTP 401'' REDIRECT) ready_hook)
       = Resolved None"
  by (simp add: listResources_def request_operation_def callTool_def reauthorize_def
      rejected_request_def ready_hook_def initial_hook_def auth_returns_def auth_def
      is_unauthorized_def with_cursor_def truthy_def calm_def startsWith_def Let_def)

theorem only_callTool_reauthorizes_witness:
  "stateRef ready_hook = Ready \<and> clientRef ready_hook
   \<and> fst (listResources Ready None (rejected_request ''HTTP 401'' AUTHORIZED) ready_hook)
       = Rejected ''HTTP 401''
   \<and> fst (callTool Ready ''search'' ''{}'' (rejected_request ''HTTP 401'' AUTHORIZED) ready_hook)
       = Resolved None"
  using only_callTool_reauthorizes by (simp add: ready_hook_def initial_hook_def)

section \<open>The connect cycle\<close>

text \<open>
  One call of \<open>connect()\<close> that passes its two guards: what \<open>connect_once\<close> is when the
  primary attempt falls back, when it does not, and when it has called \<open>connect()\<close> again.
\<close>

lemma connect_init_provider: "authProviderRef (connect_init cfg h) = Some (provider_of cfg h)"
  by simp

lemma connect_once_proceeds:
  assumes "\<not> connectingRef h" "isMountedRef h"
  shows "connect_once cfg c p h =
     (case tryConnectWithTransport cfg Http (http_env c) p (connect_init cfg h) of
           (httpResult, restarted, h1) \<Rightarrow>
             if restarted then (Restarted, h1)
             else if httpResult = Fallback \<and> isMountedRef h1 \<and> stateRef h1 \<noteq> Authenticating then
               (case tryConnectWithTransport cfg Sse (sse_env c) False h1 of
                  (sseResult, restarted2, h2) \<Rightarrow>
                    if restarted2 then (Restarted, h2)
                    else (Finished (final_status sseResult), finish sseResult h2))
             else (Finished (final_status httpResult), finish httpResult h1))"
  unfolding connect_once_def using assms by (simp only: if_False if_True simp_thms)

lemma connect_once_fallback:
  assumes "\<not> connectingRef h" "isMountedRef h"
    and "tryConnectWithTransport cfg Http (http_env c) p (connect_init cfg h) = (Fallback, False, h1)"
    and "isMountedRef h1" "stateRef h1 \<noteq> Authenticating"
  shows "connect_once cfg c p h =
           (case tryConnectWithTransport cfg Sse (sse_env c) False h1 of
                  (sseResult, restarted2, h2) \<Rightarrow>
                    if restarted2 then (Restarted, h2)
                    else (Finished (final_status sseResult), finish sseResult h2))"
  unfolding connect_once_proceeds [OF assms(1,2)] assms(3)
  using assms(4,5) by (simp only: prod.case if_False if_True simp_thms)


lemma connect_once_restarted:
  assumes "\<not> connectingRef h" "isMountedRef h"
    and "tryConnectWithTransport cfg Http (http_env c) p (connect_init cfg h) = (r, True, h1)"
  shows "connect_once cfg c p h = (Restarted, h1)"
  unfolding connect_once_proceeds [OF assms(1,2)] assms(3) by simp


lemma attempt_created_grows:
  "\<exists>rest. created (snd (snd (tryConnectWithTransport cfg t e p h))) = created h @ rest"
  by (simp add: tryConnectWithTransport_def Let_def split: option.splits)

subsection \<open>What an attempt keeps\<close>

text \<open>
  No attempt touches the provider. The client is dropped only by the cleanup of an unmount:
  an attempt that ends with the component mounted ends with the client it started with.
\<close>

lemma provider_auth_failed: "authProviderRef (snd (snd (auth_failed t m h))) = authProviderRef h"
  by (simp add: auth_failed_def Let_def)

lemma provider_auth_flow: "authProviderRef (snd (snd (auth_flow t e h))) = authProviderRef h"
  by (simp add: auth_flow_def provider_auth_failed Let_def
      split: option.splits prod.splits auth_result.splits)

lemma provider_connect_catch: "authProviderRef (snd (snd (connect_catch t e err h))) = authProviderRef h"
  by (simp add: connect_catch_def provider_auth_flow Let_def)

lemma provider_load_catalog: "authProviderRef (snd (snd (load_catalog t e h))) = authProviderRef h"
  by (simp add: load_catalog_def provider_connect_catch Let_def)

lemma provider_fail_create: "authProviderRef (snd (snd (fail_create t m p h))) = authProviderRef h"
  by (simp add: fail_create_def)

lemma attempt_provider:
  "authProviderRef (snd (snd (tryConnectWithTransport cfg t e p h))) = authProviderRef h"
  by (simp add: tryConnectWithTransport_def Let_def provider_fail_create provider_connect_catch
      provider_load_catalog split: option.splits)

lemma live_auth_failed:
  "isMountedRef (snd (snd (auth_failed t m h))) = isMountedRef h"
  "clientRef (snd (snd (auth_failed t m h))) = clientRef h"
  by (simp_all add: auth_failed_def Let_def)

lemma live_auth_flow:
  assumes "isMountedRef (snd (snd (auth_flow t e h)))"
  shows "isMountedRef h" and "clientRef (snd (snd (auth_flow t e h))) = clientRef h"
  using assms
  by (auto simp: auth_flow_def live_auth_failed Let_def
      split: option.splits prod.splits auth_result.splits if_splits)

lemma live_connect_catch:
  assumes "isMountedRef (snd (snd (connect_catch t e err h)))"
  shows "isMountedRef h" and "clientRef (snd (snd (connect_catch t e err h))) = clientRef h"
  using assms live_auth_flow [of t e "addLog LDebug (''Client connect error via '' @ upper t @ '':'') [''{}''] h"]
  by (auto simp: connect_catch_def Let_def split: if_splits)

lemma live_load_catalog:
  assumes "isMountedRef (snd (snd (load_catalog t e h)))"
  shows "isMountedRef h" and "clientRef (snd (snd (load_catalog t e h))) = clientRef h"
  using assms
    live_connect_catch [of t e "null_client_error ''request''"
      "(addLog LInfo (''Client connected via '' @ upper t @
                             ''. Loading tools, resources, and prompts...'') [] h)
         \<lparr>successfulTransportRef := Some t, state := Loading\<rparr>"]
  by (auto simp: load_catalog_def Let_def split: if_splits)

lemma live_fail_create:
  "isMountedRef (snd (snd (fail_create t m p h))) = isMountedRef h"
  "clientRef (snd (snd (fail_create t m p h))) = clientRef h"
  by (simp_all add: fail_create_def)

lemma attempt_stays_live:
  assumes m: "isMountedRef (snd (snd (tryConnectWithTransport cfg t e p h)))" and c: "clientRef h"
  shows "clientRef (snd (snd (tryConnectWithTransport cfg t e p h)))"
proof (cases "authProviderRef h = None")
  case True
  then show ?thesis using c by (simp add: tryConnectWithTransport_def Let_def live_fail_create)
next
  case pr: False
  then obtain y where y: "authProviderRef h = Some y" by auto
  define h3 where "h3 = close_previous e p (enter_attempt t h)"
  show ?thesis
  proof (cases "url_error cfg")
    case (Some msg)
    have r: "tryConnectWithTransport cfg t e p h =
               fail_create t msg (if transportRef h = None then p else False) h3"
      unfolding tryConnectWithTransport_def Let_def h3_def using y c Some by simp
    from m have "isMountedRef h3" unfolding r by (simp add: live_fail_create)
    then have "clientRef h3" using c unfolding h3_def by (auto split: if_splits)
    then show ?thesis unfolding r by (simp add: live_fail_create)
  next
    case None
    define h5 where "h5 = construct_transport t h3"
    define h6 where "h6 = await (connect_tick e) (resume_outer (if transportRef h = None then p else False) h5)"
    have r: "tryConnectWithTransport cfg t e p h =
               (if \<not> clientRef h5 then connect_catch t e (null_client_error ''connect'') h5
                else case connect_outcome e of
                       Some err \<Rightarrow> connect_catch t e err h6
                     | None \<Rightarrow> load_catalog t e h6)"
      unfolding tryConnectWithTransport_def Let_def h6_def h5_def h3_def using y c None by auto
    have k5: "isMountedRef h5 \<Longrightarrow> clientRef h5"
      using c unfolding h5_def h3_def by (auto split: if_splits)
    have k6: "isMountedRef h6 \<Longrightarrow> clientRef h6 \<and> isMountedRef h5"
      using k5 unfolding h6_def by (auto split: if_splits)
    show ?thesis
    proof (cases "clientRef h5")
      case False
      with m have "isMountedRef (snd (snd (connect_catch t e (null_client_error ''connect'') h5)))"
        unfolding r by simp
      from live_connect_catch(1) [OF this] k5 False show ?thesis by simp
    next
      case True
      show ?thesis
      proof (cases "connect_outcome e")
        case (Some err)
        have r': "tryConnectWithTransport cfg t e p h = connect_catch t e err h6"
          unfolding r using True Some by simp
        from m have l: "isMountedRef (snd (snd (connect_catch t e err h6)))" unfolding r' .
        from live_connect_catch [OF l] k6 show ?thesis unfolding r' by simp
      next
        case None
        have r': "tryConnectWithTransport cfg t e p h = load_catalog t e h6"
          unfolding r using True None by simp
        from m have l: "isMountedRef (snd (snd (load_catalog t e h6)))" unfolding r' .
        from live_load_catalog [OF l] k6 show ?thesis unfolding r' by simp
      qed
    qed
  qed
qed

subsection \<open>The catch block, by the class of the rejection\<close>


lemma connect_catch_authorized:
  assumes "classified_unauthorized t err"
    and "authProviderRef h = Some p" "fst (auth p (auth_run e) (localStorage h)) = AUTHORIZED"
    and "isMountedRef h" "\<not> unmount (auth_tick e)"
  shows "\<exists>h1. connect_catch t e err h = (AttemptFailed, True, h1)
           \<and> \<not> connectingRef h1 \<and> isMountedRef h1 \<and> created h1 = created h"
proof -
  have u: "is_unauthorized err" "\<not> (t = Http \<and> (is404 (err_message err) \<or> is405 (err_message err)
             \<or> isLikelyCors (err_message err)))"
    using assms(1) by (auto simp: classified_unauthorized_def soft_retryable_def split: if_splits)
  obtain st where a: "auth p (auth_run e) (localStorage h) = (AUTHORIZED, st)"
    using assms(3) by (cases "auth p (auth_run e) (localStorage h)") simp
  let ?h = "addLog LDebug (''Client connect error via '' @ upper t @ '':'') [''{}''] h"
  have f: "auth_flow t e ?h =
      (AttemptFailed, True,
        (addLog LInfo ''Authentication successful via existing token or refresh. Re-attempting connection...'' []
           (await (auth_tick e) ((begin_auth ?h)\<lparr>localStorage := st\<rparr>)))
          \<lparr>authTimeoutRef := False, connectingRef := False\<rparr>)"
    using assms(2,4,5) a by (simp add: auth_flow_def Let_def)
  have "connect_catch t e err h = auth_flow t e ?h"
    using u by (cases t) (auto simp: connect_catch_def Let_def)
  then show ?thesis unfolding f using assms(4,5) by simp
qed


lemma connect_catch_auth_throws:
  assumes "classified_unauthorized Http err"
    and "authProviderRef h = Some p" "fst (auth p (auth_run e) (localStorage h)) = AuthThrows msg"
    and "isMountedRef h" "\<not> unmount (auth_tick e)"
  shows "\<exists>h1. connect_catch Http e err h = (Fallback, False, h1)
           \<and> isMountedRef h1 \<and> created h1 = created h
           \<and> localStorage h1 = snd (auth p (auth_run e) (localStorage h))
           \<and> stateRef h1 = (if commit (auth_tick e)
                             then (if stateRef h \<noteq> Authenticating then Authenticating else state h)
                             else stateRef h)"
proof -
  have u: "is_unauthorized err" "\<not> (is404 (err_message err) \<or> is405 (err_message err)
             \<or> isLikelyCors (err_message err))"
    using assms(1) by (auto simp: classified_unauthorized_def soft_retryable_def split: if_splits)
  obtain st where a: "auth p (auth_run e) (localStorage h) = (AuthThrows msg, st)"
    using assms(3) by (cases "auth p (auth_run e) (localStorage h)") simp
  let ?h = "addLog LDebug (''Client connect error via '' @ upper Http @ '':'') [''{}''] h"
  have f: "auth_flow Http e ?h =
      (Fallback, False,
        addLog LError ''Auth flow failed:'' [''{}'']
          ((await (auth_tick e) ((begin_auth ?h)\<lparr>localStorage := st\<rparr>))\<lparr>authTimeoutRef := False\<rparr>))"
    using assms(2,4,5) a by (simp add: auth_flow_def auth_failed_def Let_def)
  have "connect_catch Http e err h = auth_flow Http e ?h"
    using u by (auto simp: connect_catch_def Let_def)
  then show ?thesis unfolding f using assms(4,5) a by simp
qed

subsection \<open>One attempt of a live component\<close>


lemma attempt_authorized:
  assumes "authProviderRef h = Some p" "clientRef h" "isMountedRef h" "url_error cfg = None"
    and "transportRef h = None \<or> \<not> unmount (close_tick e)" "\<not> unmount (connect_tick e)"
    and "connect_outcome e = Some err" "classified_unauthorized t err"
    and "fst (auth p (auth_run e) (localStorage h)) = AUTHORIZED"
    and "\<not> unmount (auth_tick e)"
  shows "\<exists>h1. tryConnectWithTransport cfg t e pending h = (AttemptFailed, True, h1)
             \<and> \<not> connectingRef h1 \<and> isMountedRef h1 \<and> created h1 = created h @ [t]"
proof -
  define B where "B = before_connect t e pending h"
  have n: "authProviderRef h \<noteq> None" using assms(1) by simp
  have B1: "isMountedRef B" "authProviderRef B = Some p" "localStorage B = localStorage h"
    "created B = created h @ [t]"
    unfolding B_def using before_connect_calm(1) [OF assms(3,6,5)] assms(1) by simp_all
  have a: "tryConnectWithTransport cfg t e pending h = connect_catch t e err B"
    unfolding attempt_settles [OF n assms(2-5)] assms(7) B_def by simp
  have au: "fst (auth p (auth_run e) (localStorage B)) = AUTHORIZED"
    unfolding B1(3) by (rule assms(9))
  show ?thesis
    unfolding a using connect_catch_authorized [OF assms(8) B1(2) au B1(1) assms(10)] B1(4) by simp
qed


lemma primary_auth_throws:
  assumes "isMountedRef h" "url_error cfg = None"
    and "connect_outcome (http_env c) = Some err" "classified_unauthorized Http err"
    and "\<not> unmount (connect_tick (http_env c))"
      "transportRef h = None \<or> \<not> unmount (close_tick (http_env c))"
    and "fst (auth (provider_of cfg h) (auth_run (http_env c)) (localStorage h)) = AuthThrows msg"
    and "\<not> unmount (auth_tick (http_env c))"
  shows "\<exists>h1. tryConnectWithTransport cfg Http (http_env c) pending (connect_init cfg h) = (Fallback, False, h1)
           \<and> isMountedRef h1 \<and> created h1 = created h @ [Http]
           \<and> localStorage h1 = snd (auth (provider_of cfg h) (auth_run (http_env c)) (localStorage h))
           \<and> (\<not> commit (auth_tick (http_env c))
                \<and> (stateRef h \<noteq> Authenticating \<or> commit (connect_tick (http_env c)))
                \<longrightarrow> stateRef h1 \<noteq> Authenticating)"
proof -
  define h0 where "h0 = connect_init cfg h"
  define B where "B = before_connect Http (http_env c) pending h0"
  have p0: "authProviderRef h0 \<noteq> None" "clientRef h0" "isMountedRef h0"
    "transportRef h0 = None \<or> \<not> unmount (close_tick (http_env c))"
    unfolding h0_def using assms(1,6) by (simp_all add: connect_init_provider)
  note calm = before_connect_calm [OF p0(3) assms(5) p0(4), of Http pending]
  have B1: "isMountedRef B" "authProviderRef B = Some (provider_of cfg h)"
    "created B = created h @ [Http]" "localStorage B = localStorage h"
    unfolding B_def using calm unfolding h0_def by (simp_all add: connect_init_provider)
  have B2: "stateRef B \<noteq> Authenticating"
    if "stateRef h \<noteq> Authenticating \<or> commit (connect_tick (http_env c))"
    unfolding B_def calm(4) using that by (auto simp: h0_def)
  have au: "fst (auth (provider_of cfg h) (auth_run (http_env c)) (localStorage B)) = AuthThrows msg"
    unfolding B1(4) by (rule assms(7))
  from connect_catch_auth_throws [OF assms(4) B1(2) au B1(1) assms(8)]
  obtain h1 where cc: "connect_catch Http (http_env c) err B = (Fallback, False, h1)"
    and k: "isMountedRef h1" "created h1 = created B"
      "localStorage h1 = snd (auth (provider_of cfg h) (auth_run (http_env c)) (localStorage B))"
      "stateRef h1 = (if commit (auth_tick (http_env c))
                        then (if stateRef B \<noteq> Authenticating then Authenticating else state B)
                        else stateRef B)"
    by blast
  have a1: "tryConnectWithTransport cfg Http (http_env c) pending h0 = (Fallback, False, h1)"
    unfolding attempt_settles [OF p0(1-3) assms(2) p0(4)] assms(3) B_def [symmetric]
    using cc by simp
  show ?thesis
    unfolding h0_def [symmetric] a1 using k B1 B2 by simp
qed

lemma restart_runs_primary:
  assumes "\<not> connectingRef h" "isMountedRef h" "url_error cfg = None"
  shows "fst (connect_once cfg c p h) \<noteq> NoOp
       \<and> (\<exists>rest. created (snd (connect_once cfg c p h)) = created h @ Http # rest)"
proof -
  obtain r restarted h1 where a: "tryConnectWithTransport cfg Http (http_env c) p (connect_init cfg h) = (r, restarted, h1)"
    by (cases "tryConnectWithTransport cfg Http (http_env c) p (connect_init cfg h)") auto
  have "created (snd (snd (tryConnectWithTransport cfg Http (http_env c) p (connect_init cfg h))))
          = created (connect_init cfg h) @ [Http]"
    by (rule attempt_creates) (simp_all add: connect_init_provider assms(3))
  then have c1: "created h1 = created h @ [Http]" unfolding a by simp
  obtain r2 restarted2 h2 where b: "tryConnectWithTransport cfg Sse (sse_env c) False h1 = (r2, restarted2, h2)"
    by (cases "tryConnectWithTransport cfg Sse (sse_env c) False h1") auto
  from attempt_created_grows [of cfg Sse "sse_env c" False h1]
  obtain rest where c2: "created h2 = created h1 @ rest" unfolding b by auto
  show ?thesis
    unfolding connect_once_proceeds [OF assms(1,2)] a
    using c1 c2 by (simp add: b)
qed

subsection \<open>One call of connect of a live component\<close>

lemma cycle_authorized_primary:
  assumes "\<not> connectingRef h" "isMountedRef h" "url_error cfg = None"
    and "connect_outcome (http_env c) = Some err" "classified_unauthorized Http err"
    and "fst (auth (provider_of cfg h) (auth_run (http_env c)) (localStorage h)) = AUTHORIZED"
    and "\<not> unmount (connect_tick (http_env c))"
      "transportRef h = None \<or> \<not> unmount (close_tick (http_env c))"
    and "\<not> unmount (auth_tick (http_env c))"
  shows "\<exists>h1. connect_once cfg c pending h = (Restarted, h1)
             \<and> \<not> connectingRef h1 \<and> isMountedRef h1 \<and> created h1 = created h @ [Http]"
proof -
  define h0 where "h0 = connect_init cfg h"
  have p0: "authProviderRef h0 = Some (provider_of cfg h)" "clientRef h0" "isMountedRef h0"
    "transportRef h0 = None \<or> \<not> unmount (close_tick (http_env c))"
    "fst (auth (provider_of cfg h) (auth_run (http_env c)) (localStorage h0)) = AUTHORIZED"
    "created h0 = created h"
    unfolding h0_def using assms(2,6,8) by (simp_all add: connect_init_provider)
  from attempt_authorized [OF p0(1-3) assms(3) p0(4) assms(7,4,5) p0(5) assms(9), of pending]
  obtain h1 where
    a: "tryConnectWithTransport cfg Http (http_env c) pending (connect_init cfg h) = (AttemptFailed, True, h1)"
    and b: "\<not> connectingRef h1" "isMountedRef h1" "created h1 = created h @ [Http]"
    unfolding h0_def p0(6) [unfolded h0_def] by blast
  have "connect_once cfg c pending h = (Restarted, h1)"
    by (rule connect_once_restarted [OF assms(1,2) a])
  with b show ?thesis by simp
qed





subsection \<open>The surroundings of the examples\<close>

lemma initial_hook_start:
  "\<not> connectingRef initial_hook" "isMountedRef initial_hook" "transportRef initial_hook = None"
  "created initial_hook = []" "stateRef initial_hook \<noteq> Authenticating"
  by (simp_all add: initial_hook_def)


lemma auth_returns_result: "fst (auth p (auth_returns r) st) = r"
  by (simp add: auth_def auth_returns_def)

lemma rejecting_env:
  "connect_outcome (rejecting m r d) = Some \<lparr>err_message = m, err_unauthorized = False\<rparr>"
  "connect_tick (rejecting m r d) = d" "close_tick (rejecting m r d) = d"
  "auth_tick (rejecting m r d) = d" "auth_run (rejecting m r d) = auth_returns r"
  by (simp_all add: rejecting_def)

lemma example_classes:
  "soft_retryable \<lparr>err_message = ''HTTP 404'', err_unauthorized = False\<rparr>"
  "\<not> is_unauthorized \<lparr>err_message = ''HTTP 500'', err_unauthorized = False\<rparr>"
  "classified_unauthorized Http \<lparr>err_message = ''HTTP 401'', err_unauthorized = False\<rparr>"
  by (simp_all add: soft_retryable_def classified_unauthorized_def is_unauthorized_def
        is404_def is405_def isLikelyCors_def startsWith_def)

lemma example_ticks:
  "\<not> unmount calm" "commit calm" "unmount unmounting"
  by (simp_all add: calm_def unmounting_def)

lemma example_still: "\<not> unmount still" "\<not> commit still"
  by (simp_all add: still_def)

section \<open>Fallback to the secondary transport\<close>




section \<open>Restart after a silent authorization\<close>

text \<open>
  Claim C2. In a call of \<open>connect()\<close> of a live component that passes its guards, let an
  attempt \<open>t\<close> be rejected with an error classified unauthorized, and let \<open>auth\<close> answer
  \<open>AUTHORIZED\<close>. The attempt is the primary one, which starts on the hook \<open>connect_init\<close> leaves;
  or the secondary one, whenever \<open>connect\<close> reaches it: the primary attempt has returned
  \<open>"fallback"\<close> (after a soft-retryable error, another error, or a thrown \<open>auth\<close>), leaving the
  hook \<open>h'\<close>, and the guard of the fallback has passed. Then the attempt calls \<open>connect()\<close> again:
  the call at hand ends as restarted, having constructed \<open>[Http]\<close> or \<open>[Http, Sse]\<close>; the run of
  \<open>connect\<close> goes on with the new call, which passes both guards (it is not a no-op) and
  constructs the primary (HTTP) transport before any other.
\<close>

theorem authorized_restarts_at_primary:
  assumes start: "\<not> connectingRef h" "isMountedRef h" "url_error cfg = None"
    and attempt: "t = Http \<and> e = http_env c \<and> h' = connect_init cfg h
            \<and> (transportRef h = None \<or> \<not> unmount (close_tick e))
        \<or> t = Sse \<and> e = sse_env c
            \<and> tryConnectWithTransport cfg Http (http_env c) pending (connect_init cfg h)
                 = (Fallback, False, h')
            \<and> isMountedRef h' \<and> stateRef h' \<noteq> Authenticating
            \<and> \<not> unmount (close_tick e)"
    and rejected: "connect_outcome e = Some err" "classified_unauthorized t err"
      "\<not> unmount (connect_tick e)"
    and authorized: "fst (auth (provider_of cfg h) (auth_run e) (localStorage h')) = AUTHORIZED"
      "\<not> unmount (auth_tick e)"
  shows "\<exists>h1. connect_once cfg c pending h = (Restarted, h1)
           \<and> created h1 = created h @ (if t = Http then [Http] else [Http, Sse])
           \<and> (\<forall>c' cs. connect cfg (c # c' # cs) pending h = connect cfg (c' # cs) True h1)
           \<and> (\<forall>c'. fst (connect_once cfg c' True h1) \<noteq> NoOp
                 \<and> (\<exists>rest. created (snd (connect_once cfg c' True h1)) = created h1 @ Http # rest))"
proof -
  from attempt consider
      (http) "t = Http" "e = http_env c" "h' = connect_init cfg h"
        "transportRef h = None \<or> \<not> unmount (close_tick e)"
    | (sse) "t = Sse" "e = sse_env c"
        "tryConnectWithTransport cfg Http (http_env c) pending (connect_init cfg h) = (Fallback, False, h')"
        "isMountedRef h'" "stateRef h' \<noteq> Authenticating" "\<not> unmount (close_tick e)"
    by blast
  then have "\<exists>h1. connect_once cfg c pending h = (Restarted, h1)
             \<and> \<not> connectingRef h1 \<and> isMountedRef h1
             \<and> created h1 = created h @ (if t = Http then [Http] else [Http, Sse])"
  proof cases
    case http
    have u: "classified_unauthorized Http err" using rejected(2) http(1) by simp
    have a: "fst (auth (provider_of cfg h) (auth_run (http_env c)) (localStorage h)) = AUTHORIZED"
      using authorized(1) unfolding http(2,3) by simp
    from cycle_authorized_primary(1)
      [OF start rejected(1) [unfolded http(2)] u a rejected(3) [unfolded http(2)]
        http(4) [unfolded http(2)] authorized(2) [unfolded http(2)], of pending]
    show ?thesis using http(1) by simp
  next
    case sse
    have pr: "authProviderRef h' = Some (provider_of cfg h)"
      using attempt_provider [of cfg Http "http_env c" pending "connect_init cfg h"]
      unfolding sse(3) by simp
    have cl: "clientRef h'"
      using attempt_stays_live [of cfg Http "http_env c" pending "connect_init cfg h"] sse(4)
      unfolding sse(3) by simp
    have cr: "created h' = created h @ [Http]"
      using attempt_creates [of "connect_init cfg h" cfg Http "http_env c" pending] start(3)
      unfolding sse(3) by simp
    have once: "connect_once cfg c pending h =
           (case tryConnectWithTransport cfg Sse (sse_env c) False h' of
                  (sseResult, restarted2, h2) \<Rightarrow>
                    if restarted2 then (Restarted, h2)
                    else (Finished (final_status sseResult), finish sseResult h2))"
      by (rule connect_once_fallback [OF start(1,2) sse(3,4,5)])
    have c2: "transportRef h' = None \<or> \<not> unmount (close_tick (sse_env c))"
      using sse(6) unfolding sse(2) by simp
    have u: "classified_unauthorized Sse err" using rejected(2) sse(1) by simp
    from attempt_authorized(1)
      [OF pr cl sse(4) start(3) c2 rejected(3) [unfolded sse(2)] rejected(1) [unfolded sse(2)] u
        authorized(1) [unfolded sse(2)] authorized(2) [unfolded sse(2)], of False]
    obtain h2 where
      s: "tryConnectWithTransport cfg Sse (sse_env c) False h' = (AttemptFailed, True, h2)"
      and k: "\<not> connectingRef h2" "isMountedRef h2" "created h2 = created h' @ [Sse]"
      by blast
    show ?thesis unfolding once s using k cr sse(1) by simp
  qed
  then obtain h1 where o: "connect_once cfg c pending h = (Restarted, h1)"
    and f: "\<not> connectingRef h1" "isMountedRef h1"
      "created h1 = created h @ (if t = Http then [Http] else [Http, Sse])"
    by blast
  have n: "\<forall>c' cs. connect cfg (c # c' # cs) pending h = connect cfg (c' # cs) True h1"
    by (simp add: o)
  have m: "\<forall>c'. fst (connect_once cfg c' True h1) \<noteq> NoOp
                 \<and> (\<exists>rest. created (snd (connect_once cfg c' True h1)) = created h1 @ Http # rest)"
    using restart_runs_primary [OF f(1,2) start(3)] by blast
  from o f(3) n m show ?thesis by blast
qed

text \<open>
  Two instances on a freshly mounted hook. The primary attempt is rejected with \<open>HTTP 401\<close>
  and \<open>auth\<close> answers \<open>AUTHORIZED\<close>. And the primary attempt is rejected with \<open>HTTP 401\<close>, \<open>auth\<close>
  throws before a render is committed, the primary attempt returns \<open>"fallback"\<close>, the secondary
  attempt is rejected with \<open>HTTP 401\<close> and now \<open>auth\<close> answers \<open>AUTHORIZED\<close>. In both the new call
  constructs the HTTP transport next.
\<close>

theorem authorized_restarts_at_primary_witness:
  "(\<exists>h1. connect_once example_config
            \<lparr>http_env = rejecting ''HTTP 401'' AUTHORIZED calm, sse_env = answering\<rparr> False initial_hook
          = (Restarted, h1)
        \<and> created h1 = [Http]
        \<and> connect example_config
            [\<lparr>http_env = rejecting ''HTTP 401'' AUTHORIZED calm, sse_env = answering\<rparr>,
             \<lparr>http_env = answering, sse_env = answering\<rparr>] False initial_hook
          = connect example_config [\<lparr>http_env = answering, sse_env = answering\<rparr>] True h1
        \<and> fst (connect_once example_config \<lparr>http_env = answering, sse_env = answering\<rparr> True h1) \<noteq> NoOp
        \<and> (\<exists>rest. created (snd (connect_once example_config
                      \<lparr>http_env = answering, sse_env = answering\<rparr> True h1)) = [Http, Http] @ rest))
   \<and> (\<exists>h1. connect_once example_config
            \<lparr>http_env = (rejecting ''HTTP 401'' (AuthThrows ''no metadata'') calm)\<lparr>auth_tick := still\<rparr>,
              sse_env = rejecting ''HTTP 401'' AUTHORIZED calm\<rparr> False initial_hook
          = (Restarted, h1)
        \<and> created h1 = [Http, Sse]
        \<and> fst (connect_once example_config \<lparr>http_env = answering, sse_env = answering\<rparr> True h1) \<noteq> NoOp
        \<and> (\<exists>rest. created (snd (connect_once example_config
                      \<lparr>http_env = answering, sse_env = answering\<rparr> True h1)) = [Http, Sse, Http] @ rest))"
proof (rule conjI)
  define c where "c = \<lparr>http_env = rejecting ''HTTP 401'' AUTHORIZED calm, sse_env = answering\<rparr>"
  define e where "e = rejecting ''HTTP 401'' AUTHORIZED calm"
  define h' where "h' = connect_init example_config initial_hook"
  have u: "url_error example_config = None" by (simp add: example_config_def)
  have r: "Http = Http \<and> e = http_env c \<and> h' = connect_init example_config initial_hook
            \<and> (transportRef initial_hook = None \<or> \<not> unmount (close_tick e))
        \<or> Http = Sse \<and> e = sse_env c
            \<and> tryConnectWithTransport example_config Http (http_env c) False
                 (connect_init example_config initial_hook) = (Fallback, False, h')
            \<and> isMountedRef h' \<and> stateRef h' \<noteq> Authenticating
            \<and> \<not> unmount (close_tick e)"
    by (simp add: c_def e_def h'_def initial_hook_start)
  have p: "connect_outcome e = Some \<lparr>err_message = ''HTTP 401'', err_unauthorized = False\<rparr>"
    "\<not> unmount (connect_tick e)"
    by (simp_all add: e_def rejecting_env example_ticks)
  have a: "fst (auth (provider_of example_config initial_hook) (auth_run e) (localStorage h')) = AUTHORIZED"
    "\<not> unmount (auth_tick e)"
    by (simp_all add: e_def rejecting_env auth_returns_result example_ticks)
  from authorized_restarts_at_primary
    [OF initial_hook_start(1,2) u r p(1) example_classes(3) p(2) a]
  obtain h1 where h: "connect_once example_config c False initial_hook = (Restarted, h1)"
    "created h1 = created initial_hook @ (if Http = Http then [Http] else [Http, Sse])"
    "\<forall>c' cs. connect example_config (c # c' # cs) False initial_hook
         = connect example_config (c' # cs) True h1"
    "\<forall>c'. fst (connect_once example_config c' True h1) \<noteq> NoOp
         \<and> (\<exists>rest. created (snd (connect_once example_config c' True h1)) = created h1 @ Http # rest)"
    by blast
  have h2: "created h1 = [Http]" using h(2) by (simp add: initial_hook_start)
  from h(4) obtain rest where
    k: "fst (connect_once example_config \<lparr>http_env = answering, sse_env = answering\<rparr> True h1) \<noteq> NoOp"
      "created (snd (connect_once example_config \<lparr>http_env = answering, sse_env = answering\<rparr> True h1))
         = created h1 @ Http # rest"
    by blast
  show "\<exists>h1. connect_once example_config
            \<lparr>http_env = rejecting ''HTTP 401'' AUTHORIZED calm, sse_env = answering\<rparr> False initial_hook
          = (Restarted, h1)
        \<and> created h1 = [Http]
        \<and> connect example_config
            [\<lparr>http_env = rejecting ''HTTP 401'' AUTHORIZED calm, sse_env = answering\<rparr>,
             \<lparr>http_env = answering, sse_env = answering\<rparr>] False initial_hook
          = connect example_config [\<lparr>http_env = answering, sse_env = answering\<rparr>] True h1
        \<and> fst (connect_once example_config \<lparr>http_env = answering, sse_env = answering\<rparr> True h1) \<noteq> NoOp
        \<and> (\<exists>rest. created (snd (connect_once example_config
                      \<lparr>http_env = answering, sse_env = answering\<rparr> True h1)) = [Http, Http] @ rest)"
    apply (rule exI [of _ h1])
    using h(1) h2 h(3) k unfolding c_def by simp
next
  define c where "c = \<lparr>http_env = (rejecting ''HTTP 401'' (AuthThrows ''no metadata'') calm)\<lparr>auth_tick := still\<rparr>,
              sse_env = rejecting ''HTTP 401'' AUTHORIZED calm\<rparr>"
  define e where "e = rejecting ''HTTP 401'' AUTHORIZED calm"
  have u: "url_error example_config = None" by (simp add: example_config_def)
  have q: "connect_outcome (http_env c) = Some \<lparr>err_message = ''HTTP 401'', err_unauthorized = False\<rparr>"
    "\<not> unmount (connect_tick (http_env c))"
    "transportRef initial_hook = None \<or> \<not> unmount (close_tick (http_env c))"
    "fst (auth (provider_of example_config initial_hook) (auth_run (http_env c))
           (localStorage initial_hook)) = AuthThrows ''no metadata''"
    "\<not> unmount (auth_tick (http_env c))"
    "\<not> commit (auth_tick (http_env c))
      \<and> (stateRef initial_hook \<noteq> Authenticating \<or> commit (connect_tick (http_env c)))"
    by (simp_all add: c_def rejecting_env example_ticks example_still initial_hook_start
        auth_returns_result)
  from primary_auth_throws [OF initial_hook_start(2) u q(1) example_classes(3) q(2,3,4,5), of False] q(6)
  obtain h' where f: "tryConnectWithTransport example_config Http (http_env c) False
                 (connect_init example_config initial_hook) = (Fallback, False, h')"
    "isMountedRef h'" "stateRef h' \<noteq> Authenticating"
    "localStorage h' = snd (auth (provider_of example_config initial_hook) (auth_run (http_env c))
           (localStorage initial_hook))"
    by blast
  have r: "Sse = Http \<and> e = http_env c \<and> h' = connect_init example_config initial_hook
            \<and> (transportRef initial_hook = None \<or> \<not> unmount (close_tick e))
        \<or> Sse = Sse \<and> e = sse_env c
            \<and> tryConnectWithTransport example_config Http (http_env c) False
                 (connect_init example_config initial_hook) = (Fallback, False, h')
            \<and> isMountedRef h' \<and> stateRef h' \<noteq> Authenticating
            \<and> \<not> unmount (close_tick e)"
    using f(1,2,3) by (simp add: c_def e_def rejecting_env example_ticks)
  have p: "connect_outcome e = Some \<lparr>err_message = ''HTTP 401'', err_unauthorized = False\<rparr>"
    "\<not> unmount (connect_tick e)"
    by (simp_all add: e_def rejecting_env example_ticks)
  have s: "classified_unauthorized Sse \<lparr>err_message = ''HTTP 401'', err_unauthorized = False\<rparr>"
    by (simp add: classified_unauthorized_def is_unauthorized_def startsWith_def)
  have a: "fst (auth (provider_of example_config initial_hook) (auth_run e) (localStorage h')) = AUTHORIZED"
    "\<not> unmount (auth_tick e)"
    by (simp_all add: e_def rejecting_env auth_returns_result example_ticks)
  from authorized_restarts_at_primary
    [OF initial_hook_start(1,2) u r p(1) s p(2) a]
  obtain h1 where h: "connect_once example_config c False initial_hook = (Restarted, h1)"
    "created h1 = created initial_hook @ (if Sse = Http then [Http] else [Http, Sse])"
    "\<forall>c'. fst (connect_once example_config c' True h1) \<noteq> NoOp
         \<and> (\<exists>rest. created (snd (connect_once example_config c' True h1)) = created h1 @ Http # rest)"
    by blast
  have h2: "created h1 = [Http, Sse]" using h(2) by (simp add: initial_hook_start)
  from h(3) obtain rest where
    k: "fst (connect_once example_config \<lparr>http_env = answering, sse_env = answering\<rparr> True h1) \<noteq> NoOp"
      "created (snd (connect_once example_config \<lparr>http_env = answering, sse_env = answering\<rparr> True h1))
         = created h1 @ Http # rest"
    by blast
  show "\<exists>h1. connect_once example_config
            \<lparr>http_env = (rejecting ''HTTP 401'' (AuthThrows ''no metadata'') calm)\<lparr>auth_tick := still\<rparr>,
              sse_env = rejecting ''HTTP 401'' AUTHORIZED calm\<rparr> False initial_hook
          = (Restarted, h1)
        \<and> created h1 = [Http, Sse]
        \<and> fst (connect_once example_config \<lparr>http_env = answering, sse_env = answering\<rparr> True h1) \<noteq> NoOp
        \<and> (\<exists>rest. created (snd (connect_once example_config
                      \<lparr>http_env = answering, sse_env = answering\<rparr> True h1)) = [Http, Sse, Http] @ rest)"
    apply (rule exI [of _ h1])
    using h(1) h2 k unfolding c_def by simp
qed

end
